theory Spec2Isabelle
  imports Complex_Main
begin

section \<open>StreetCam: motion-triggered recording (main.py and main_2.py)\<close>

text \<open>
  The repository holds two scripts. \<^verbatim>\<open>main.py\<close> is a top-level script that compares every
  frame with a stored background image; \<^verbatim>\<open>main_2.py\<close> wraps the same loop in
  \<^verbatim>\<open>main()\<close> and uses a background subtractor. Both keep two counters, a recording flag
  and a handle \<^verbatim>\<open>out\<close> on the current clip writer, and both write every frame to a second,
  long-lived writer \<^verbatim>\<open>big_clip_out\<close>.

  Everything that comes from outside the scripts (the camera, OpenCV's image functions, the
  clock, the keyboard, whether a file can be opened) is an input of the model. The scripts'
  variables are the fields of a state record that each loop iteration takes and returns.
\<close>

subsection \<open>Video writers\<close>

text \<open>
  A \<^verbatim>\<open>cv2.VideoWriter\<close>. The constructor returns an object also when the file could not be
  opened (\<^verbatim>\<open>isOpened()\<close> is then false); \<open>written\<close> lists the frames handed to
  \<^verbatim>\<open>write\<close>, in call order.
\<close>

record 'f writer =
  path :: string
  is_opened :: bool
  released :: bool
  written :: "'f list"

text \<open>What the attempt to create a writer does: the three things the environment can answer.\<close>

datatype open_outcome = Opened | NotOpened | OpenRaises

definition VideoWriter :: "string \<Rightarrow> open_outcome \<Rightarrow> 'f writer" where
  "VideoWriter p oc = \<lparr>path = p, is_opened = (oc = Opened), released = False, written = []\<rparr>"

definition write_frame :: "'f \<Rightarrow> 'f writer \<Rightarrow> 'f writer" where
  "write_frame f w = w\<lparr>written := written w @ [f]\<rparr>"

definition release :: "'f writer \<Rightarrow> 'f writer" where
  "release w = w\<lparr>released := True\<rparr>"

text \<open>
  Clip writers live in a store (the list \<open>writers\<close> of the session, in creation order) and
  \<^verbatim>\<open>out\<close> holds an index into it, so that a writer whose handle was overwritten without a
  \<^verbatim>\<open>release\<close> would still be seen. \<open>on_writer h f ws\<close> applies \<open>f\<close> to the writer behind
  handle \<open>h\<close>.
\<close>

definition on_writer :: "nat \<Rightarrow> ('f writer \<Rightarrow> 'f writer) \<Rightarrow> 'f writer list \<Rightarrow> 'f writer list" where
  "on_writer h f ws = (if h < length ws then ws[h := f (ws ! h)] else ws)"


subsection \<open>Python's \<^verbatim>\<open>{n:03d}\<close>\<close>

fun dec_digits :: "nat \<Rightarrow> string" where
  "dec_digits n =
     (if n < 10 then [''0123456789'' ! n]
      else dec_digits (n div 10) @ [''0123456789'' ! (n mod 10)])"

declare dec_digits.simps [simp del]

definition zero_pad :: "nat \<Rightarrow> string \<Rightarrow> string" where
  "zero_pad width ds = replicate (width - length ds) (CHR ''0'') @ ds"

text \<open>The sign takes one of the three columns: \<^verbatim>\<open>f"{-5:03d}"\<close> is \<^verbatim>\<open>-05\<close>.\<close>

definition fmt_03d :: "int \<Rightarrow> string" where
  "fmt_03d n =
     (if n < 0 then CHR ''-'' # zero_pad 2 (dec_digits (nat (- n)))
      else zero_pad 3 (dec_digits (nat n)))"

subsection \<open>Inputs of one loop iteration\<close>

text \<open>
  \<open>ret\<close> and \<open>frame\<close> are the result of \<^verbatim>\<open>camera.read()\<close>. \<open>contours\<close> is
  \<^verbatim>\<open>len(contours)\<close> of main.py and \<open>motion_area\<close> the sum of the contour areas of main_2.py:
  both are what OpenCV answers for this frame. \<open>now_date\<close> and \<open>now_time\<close> are
  \<^verbatim>\<open>strftime('%Y%m%d')\<close> and \<^verbatim>\<open>strftime('%H%M%S')\<close> of the clock, \<open>sink_open\<close> is what creating
  a clip writer would do in this iteration, and \<open>key_q\<close> says whether
  \<^verbatim>\<open>cv2.waitKey(1) & 0xFF == ord('q')\<close>.
\<close>

record 'f frame_input =
  ret :: bool
  frame :: 'f
  contours :: nat
  motion_area :: real
  now_date :: string
  now_time :: string
  sink_open :: open_outcome
  key_q :: bool

datatype decision = Start | Stop | NoChange

datatype error = CameraNotOpened | CvError | OpenError | NameError | ZeroDivisionError

text \<open>
  How one iteration ends: it falls through to the next one, it leaves the loop with
  \<^verbatim>\<open>break\<close>, or an exception leaves the loop. The decision names the branch the iteration
  took: \<open>Start\<close> is the branch that creates a clip writer, \<open>Stop\<close> the one that releases it.
\<close>

datatype 's outcome = Next decision 's | Exit decision 's | Raise error 's

fun state_of :: "'s outcome \<Rightarrow> 's" where
  "state_of (Next d s) = s"
| "state_of (Exit d s) = s"
| "state_of (Raise e s) = s"

fun decision_of :: "'s outcome \<Rightarrow> decision" where
  "decision_of (Next d s) = d"
| "decision_of (Exit d s) = d"
| "decision_of (Raise e s) = NoChange"

fun is_Next :: "'s outcome \<Rightarrow> bool" where
  "is_Next (Next d s) = True"
| "is_Next (Exit d s) = False"
| "is_Next (Raise e s) = False"

fun is_Raise :: "'s outcome \<Rightarrow> bool" where
  "is_Raise (Raise e s) = True"
| "is_Raise (Next d s) = False"
| "is_Raise (Exit d s) = False"

subsection \<open>The variables both scripts share\<close>

record 'f session =
  clip_number :: int
  motion_detected :: bool
  motion_counter :: int
  no_motion_counter :: int
  out :: "nat option"
  frame_count :: int
  big_clip_out :: "'f writer"
  writers :: "'f writer list"
  printed :: "string list"

definition print :: "string \<Rightarrow> ('f, 'z) session_scheme \<Rightarrow> ('f, 'z) session_scheme" where
  "print msg s = s\<lparr>printed := printed s @ [msg]\<rparr>"

text \<open>Lines 113-115 of main.py and 180-181 of main_2.py.\<close>

definition write_clip :: "'f \<Rightarrow> ('f, 'z) session_scheme \<Rightarrow> ('f, 'z) session_scheme" where
  "write_clip f s =
     (if motion_detected s then
        (case out s of
           Some h \<Rightarrow> s\<lparr>writers := on_writer h (write_frame f) (writers s)\<rparr>
         | None \<Rightarrow> s)
      else s)"

text \<open>\<^verbatim>\<open>if out is not None: out.release()\<close>, at a stop and at the end of the script.\<close>

definition release_out :: "('f, 'z) session_scheme \<Rightarrow> ('f, 'z) session_scheme" where
  "release_out s =
     (case out s of
        Some h \<Rightarrow> s\<lparr>writers := on_writer h release (writers s)\<rparr>
      | None \<Rightarrow> s)"

subsection \<open>The loop\<close>

text \<open>
  The \<^verbatim>\<open>while True\<close> loop over the iterations the environment supplies: the list of the
  outcomes of the iterations that ran. The loop stops at the first \<^verbatim>\<open>break\<close> or exception;
  when the inputs end first, the loop is still running.
\<close>

fun trace :: "('s \<Rightarrow> 'i \<Rightarrow> 's outcome) \<Rightarrow> 's \<Rightarrow> 'i list \<Rightarrow> 's outcome list" where
  "trace body s [] = []"
| "trace body s (i # is) =
     (case body s i of
        Next d s' \<Rightarrow> Next d s' # trace body s' is
      | r \<Rightarrow> [r])"

definition final :: "('s \<Rightarrow> 'i \<Rightarrow> 's outcome) \<Rightarrow> 's \<Rightarrow> 'i list \<Rightarrow> 's" where
  "final body s is = (case trace body s is of [] \<Rightarrow> s | tr \<Rightarrow> state_of (last tr))"

definition decisions :: "('s \<Rightarrow> 'i \<Rightarrow> 's outcome) \<Rightarrow> 's \<Rightarrow> 'i list \<Rightarrow> decision list" where
  "decisions body s is = map decision_of (trace body s is)"

section \<open>main.py\<close>

text \<open>
  The script fixes \<^verbatim>\<open>MOTION_THRESHOLD = 10\<close>, \<^verbatim>\<open>NO_MOTION_THRESHOLD = 20\<close> and the refresh
  period \<^verbatim>\<open>300\<close> of line 124; the model takes the three numbers as a configuration, and
  \<open>main_py_cfg\<close> is the script's own.
\<close>

record cfg =
  MOTION_THRESHOLD :: int
  NO_MOTION_THRESHOLD :: int
  refresh_interval :: int

definition main_py_cfg :: cfg where
  "main_py_cfg = \<lparr>MOTION_THRESHOLD = 10, NO_MOTION_THRESHOLD = 20, refresh_interval = 300\<rparr>"

definition roi_x :: nat where "roi_x = 250"
definition roi_y :: nat where "roi_y = 150"
definition roi_width :: nat where "roi_width = 200"
definition roi_height :: nat where "roi_height = 200"

text \<open>
  OpenCV's image functions: \<open>gray_blur\<close> is \<^verbatim>\<open>cvtColor\<close> followed by \<^verbatim>\<open>GaussianBlur\<close>, giving
  a grayscale image as a list of rows; \<open>rectangle\<close> is the \<^verbatim>\<open>cv2.rectangle\<close> call of line 118,
  which draws the ROI on the frame in place.
\<close>

record ('f, 'g) cv2 =
  gray_blur :: "'f \<Rightarrow> 'g list list"
  rectangle :: "'f \<Rightarrow> 'f"

text \<open>\<^verbatim>\<open>img[roi_y:roi_y + roi_height, roi_x:roi_x + roi_width]\<close>\<close>

definition roi_crop :: "'g list list \<Rightarrow> 'g list list" where
  "roi_crop img = map (\<lambda>row. take roi_width (drop roi_x row)) (take roi_height (drop roi_y img))"

definition update_background :: "('f, 'g) cv2 \<Rightarrow> 'f \<Rightarrow> 'g list list" where
  "update_background cv f = gray_blur cv f"

record ('f, 'g) main_py = "'f session" +
  first_gray_roi :: "'g list list"
  filename :: "string option"

definition create_new_writer :: "int \<Rightarrow> string \<Rightarrow> open_outcome \<Rightarrow> 'f writer \<times> string" where
  "create_new_writer clip_num now oc =
     (let output_filename = ''clip_'' @ fmt_03d clip_num @ ''_'' @ now @ ''.mp4''
      in (VideoWriter output_filename oc, output_filename))"

text \<open>
  Lines 92-95, the start of a clip. The clip number is advanced before the writer is
  created, and the flag is set after it.
\<close>

definition start_recording :: "('f, 'g) main_py \<Rightarrow> 'f frame_input \<Rightarrow> ('f, 'g) main_py outcome" where
  "start_recording s1 i =
     (let s2 = s1\<lparr>clip_number := clip_number s1 + 1\<rparr> in
      if sink_open i = OpenRaises then Raise OpenError s2
      else
        (let (w, fname) =
               create_new_writer (clip_number s2) (now_date i @ ''_'' @ now_time i) (sink_open i);
             s3 = s2\<lparr>out := Some (length (writers s2)), writers := writers s2 @ [w],
                     filename := Some fname\<rparr>;
             s4 = print (''Motion detected, starting recording: '' @ fname) s3
         in Next Start (s4\<lparr>motion_detected := True\<rparr>)))"

text \<open>
  Lines 103-108, the stop. Line 103 reads \<^verbatim>\<open>filename\<close>, which is bound by the first start
  only.
\<close>

definition stop_recording :: "('f, 'g) main_py \<Rightarrow> ('f, 'g) main_py outcome" where
  "stop_recording s1 =
     (case filename s1 of
        None \<Rightarrow> Raise NameError s1
      | Some fname \<Rightarrow>
          (let s2 = print (''No motion detected, stopping recording: '' @ fname) s1;
               s3 = s2\<lparr>motion_detected := False\<rparr>;
               s4 = release_out s3
           in Next Stop (s4\<lparr>out := None, motion_counter := 0\<rparr>)))"

text \<open>
  Lines 85-108: the two counters, and the tests that start and stop a clip. \<open>Next\<close> means
  that control reaches line 110.
\<close>

definition motion_block ::
  "cfg \<Rightarrow> ('f, 'g) main_py \<Rightarrow> 'f frame_input \<Rightarrow> ('f, 'g) main_py outcome" where
  "motion_block c s i =
     (if 0 < contours i then
        (let s1 = s\<lparr>motion_counter := motion_counter s + 1, no_motion_counter := 0\<rparr> in
         if MOTION_THRESHOLD c < motion_counter s1 \<and> \<not> motion_detected s1
         then start_recording s1 i
         else Next NoChange s1)
      else
        (let s1 = s\<lparr>no_motion_counter := no_motion_counter s + 1\<rparr> in
         if NO_MOTION_THRESHOLD c < no_motion_counter s1 \<and> motion_detected s1
         then stop_recording s1
         else Next NoChange s1))"

text \<open>
  Lines 110-130: both writers get the frame, the ROI is drawn on it, the background is
  replaced when the frame count is a multiple of the period, and the key is read.
\<close>

definition record_frame ::
  "cfg \<Rightarrow> ('f, 'g) cv2 \<Rightarrow> decision \<Rightarrow> ('f, 'g) main_py \<Rightarrow> 'f frame_input \<Rightarrow> ('f, 'g) main_py outcome" where
  "record_frame c cv d s1 i =
     (let s2 = s1\<lparr>big_clip_out := write_frame (frame i) (big_clip_out s1)\<rparr>;
          s3 = write_clip (frame i) s2
      in if refresh_interval c = 0 then Raise ZeroDivisionError s3
         else
           (let s4 = (if frame_count s3 mod refresh_interval c = 0
                      then s3\<lparr>first_gray_roi :=
                                roi_crop (update_background cv (rectangle cv (frame i)))\<rparr>
                      else s3)
            in if key_q i then Exit d (print ''Recording stopped by user.'' s4)
               else Next d s4))"

text \<open>Lines 65-134, one iteration of the loop.\<close>

definition loop_body ::
  "cfg \<Rightarrow> ('f, 'g) cv2 \<Rightarrow> ('f, 'g) main_py \<Rightarrow> 'f frame_input \<Rightarrow> ('f, 'g) main_py outcome" where
  "loop_body c cv s0 i =
     (let s = s0\<lparr>frame_count := frame_count s0 + 1\<rparr> in
      if ret i then
        (case motion_block c s i of
           Next d s1 \<Rightarrow> record_frame c cv d s1 i
         | r \<Rightarrow> r)
      else Exit NoChange (print ''Error: Failed to capture frame.'' s))"

text \<open>
  Lines 6-61, before the loop. \<open>camera_opened\<close> is \<^verbatim>\<open>camera.isOpened()\<close>; \<open>first_ret\<close> and
  \<open>first_frame\<close> are the \<^verbatim>\<open>camera.read()\<close> of line 27, whose frame only seeds the background
  (with \<open>first_ret\<close> false the frame is \<^verbatim>\<open>None\<close> and \<^verbatim>\<open>cvtColor\<close> raises); \<open>big_open\<close> is what
  creating the full-session writer does.
\<close>

record 'f boot =
  camera_opened :: bool
  first_ret :: bool
  first_frame :: 'f
  boot_date :: string
  boot_time :: string
  big_open :: open_outcome

definition startup :: "('f, 'g) cv2 \<Rightarrow> 'f boot \<Rightarrow> error + ('f, 'g) main_py" where
  "startup cv b =
     (if \<not> camera_opened b then Inl CameraNotOpened
      else if \<not> first_ret b then Inl CvError
      else if big_open b = OpenRaises then Inl OpenError
      else Inr \<lparr>clip_number = 1, motion_detected = False, motion_counter = 0,
                no_motion_counter = 0, out = None, frame_count = 0,
                big_clip_out =
                  VideoWriter (''full_'' @ boot_date b @ ''_'' @ boot_time b @ ''.mp4'') (big_open b),
                writers = [], printed = [],
                first_gray_roi = roi_crop (gray_blur cv (first_frame b)),
                filename = None\<rparr>)"

text \<open>Lines 137-140, reached after a \<^verbatim>\<open>break\<close> only: the script has no \<^verbatim>\<open>try\<close>.\<close>

definition teardown :: "('f, 'z) session_scheme \<Rightarrow> ('f, 'z) session_scheme" where
  "teardown s = (let s1 = release_out s in s1\<lparr>big_clip_out := release (big_clip_out s1)\<rparr>)"

text \<open>
  How a run over finitely many iterations ends: the script never got to the loop, an
  exception left the loop, the loop was left by \<^verbatim>\<open>break\<close> and the writers were released, or
  the loop is still running.
\<close>

datatype 's ending = Aborted error | Crashed error 's | Ended 's | Running 's

definition main_py_script ::
  "cfg \<Rightarrow> ('f, 'g) cv2 \<Rightarrow> 'f boot \<Rightarrow> 'f frame_input list \<Rightarrow> ('f, 'g) main_py ending" where
  "main_py_script c cv b is =
     (case startup cv b of
        Inl e \<Rightarrow> Aborted e
      | Inr s0 \<Rightarrow>
          (case trace (loop_body c cv) s0 is of
             [] \<Rightarrow> Running s0
           | tr \<Rightarrow>
               (case last tr of
                  Next d s \<Rightarrow> Running s
                | Exit d s \<Rightarrow> Ended (teardown s)
                | Raise e s \<Rightarrow> Crashed e s)))"

section \<open>main_2.py\<close>

text \<open>
  The parsed command line: \<^verbatim>\<open>argparse\<close> has already turned the four options into
  integers (\<^verbatim>\<open>type=int\<close>), and checks nothing else about them.
\<close>

record args =
  motion_threshold :: int
  no_motion_threshold :: int
  sensitivity :: int
  roi :: "int \<times> int \<times> int \<times> int"

definition validate_roi :: "int \<times> int \<times> int \<times> int \<Rightarrow> int \<Rightarrow> int \<Rightarrow> int \<times> int \<times> int \<times> int" where
  "validate_roi roi_coords frame_width frame_height =
     (case roi_coords of (x, y, w, h) \<Rightarrow>
        (let x = max 0 (min x (frame_width - 1));
             y = max 0 (min y (frame_height - 1));
             w = max 1 (min w (frame_width - x));
             h = max 1 (min h (frame_height - y))
         in (x, y, w, h)))"

definition width :: int where "width = 640"
definition height :: int where "height = 480"

text \<open>\<^verbatim>\<open>os.path.join(folder, filename)\<close> for two components.\<close>

definition path_join :: "string \<Rightarrow> string \<Rightarrow> string" where
  "path_join folder fname =
     (if fname \<noteq> [] \<and> hd fname = CHR ''/'' then fname
      else if folder = [] \<or> last folder = CHR ''/'' then folder @ fname
      else folder @ ''/'' @ fname)"

text \<open>
  \<^verbatim>\<open>create_video_writer\<close>: the codec, the frame rate and the frame size are the same for
  every writer of a run and are left out. Creating the folder acts on the file system only;
  when \<^verbatim>\<open>os.makedirs\<close> or the constructor raises, the caller sees \<open>OpenRaises\<close> and this
  function is not reached.
\<close>

definition create_video_writer :: "string \<Rightarrow> open_outcome \<Rightarrow> string \<Rightarrow> 'f writer" where
  "create_video_writer fname oc folder = VideoWriter (path_join folder fname) oc"

record 'f main_2 = "'f session" +
  roi_coords :: "int \<times> int \<times> int \<times> int"
  email_sent :: bool

text \<open>Lines 155-166, the start of a clip.\<close>

definition start_recording_2 :: "'f main_2 \<Rightarrow> 'f frame_input \<Rightarrow> 'f main_2 outcome" where
  "start_recording_2 s1 i =
     (let s2 = s1\<lparr>clip_number := clip_number s1 + 1\<rparr>;
          date_folder = now_date i;
          motion_filename = ''clip_'' @ fmt_03d (clip_number s2) @ ''_'' @ now_time i @ ''.mp4''
      in if sink_open i = OpenRaises then Raise OpenError s2
         else
           (let w = create_video_writer motion_filename (sink_open i) date_folder;
                s3 = s2\<lparr>out := Some (length (writers s2)), writers := writers s2 @ [w]\<rparr>;
                s4 = print (''Motion detected, starting recording: '' @ motion_filename) s3;
                s5 = s4\<lparr>motion_detected := True\<rparr>
            in Next Start (if \<not> email_sent s5 then s5\<lparr>email_sent := True\<rparr> else s5)))"

text \<open>Lines 170-176, the stop.\<close>

definition stop_recording_2 :: "'f main_2 \<Rightarrow> 'f main_2 outcome" where
  "stop_recording_2 s1 =
     (let s2 = print ''No motion detected, stopping recording.'' s1;
          s3 = s2\<lparr>motion_detected := False\<rparr>;
          s4 = (case out s3 of Some h \<Rightarrow> (release_out s3)\<lparr>out := None\<rparr> | None \<Rightarrow> s3)
      in Next Stop (s4\<lparr>motion_counter := 0, email_sent := False\<rparr>))"

text \<open>Lines 151-176.\<close>

definition motion_block_2 :: "args \<Rightarrow> 'f main_2 \<Rightarrow> 'f frame_input \<Rightarrow> 'f main_2 outcome" where
  "motion_block_2 a s i =
     (if real_of_int (sensitivity a) < motion_area i then
        (let s1 = s\<lparr>motion_counter := motion_counter s + 1, no_motion_counter := 0\<rparr> in
         if motion_threshold a < motion_counter s1 \<and> \<not> motion_detected s1
         then start_recording_2 s1 i
         else Next NoChange s1)
      else
        (let s1 = s\<lparr>no_motion_counter := no_motion_counter s + 1\<rparr> in
         if no_motion_threshold a < no_motion_counter s1 \<and> motion_detected s1
         then stop_recording_2 s1
         else Next NoChange s1))"

text \<open>Lines 178-192: both writers get the frame, and the key is read.\<close>

definition record_frame_2 :: "decision \<Rightarrow> 'f main_2 \<Rightarrow> 'f frame_input \<Rightarrow> 'f main_2 outcome" where
  "record_frame_2 d s1 i =
     (let s2 = s1\<lparr>big_clip_out := write_frame (frame i) (big_clip_out s1)\<rparr>;
          s3 = write_clip (frame i) s2
      in if key_q i then Exit d (print ''Recording stopped by user.'' s3)
         else Next d s3)"

text \<open>Lines 127-192, one iteration of the loop of \<^verbatim>\<open>main()\<close>.\<close>

definition main_body :: "args \<Rightarrow> 'f main_2 \<Rightarrow> 'f frame_input \<Rightarrow> 'f main_2 outcome" where
  "main_body a s0 i =
     (if \<not> ret i then Exit NoChange (print ''Error: Failed to capture frame.'' s0)
      else
        (let s = s0\<lparr>frame_count := frame_count s0 + 1\<rparr> in
         case motion_block_2 a s i of
           Next d s1 \<Rightarrow> record_frame_2 d s1 i
         | r \<Rightarrow> r))"

text \<open>
  Lines 87-123. \<^verbatim>\<open>initialize_camera\<close> raises when the camera is not opened; the ROI is then
  passed through \<^verbatim>\<open>validate_roi\<close>, and the full-session writer is created last. The boot
  fields \<open>first_ret\<close> and \<open>first_frame\<close> are not read: this script reads no frame before the
  loop.
\<close>

definition main_startup :: "args \<Rightarrow> 'f boot \<Rightarrow> error + 'f main_2" where
  "main_startup a b =
     (if \<not> camera_opened b then Inl CameraNotOpened
      else
        (let rc = validate_roi (roi a) width height in
         if big_open b = OpenRaises then Inl OpenError
         else Inr \<lparr>clip_number = 1, motion_detected = False, motion_counter = 0,
                   no_motion_counter = 0, out = None, frame_count = 0,
                   big_clip_out =
                     create_video_writer (''full_'' @ boot_time b @ ''.mp4'') (big_open b)
                       (boot_date b),
                   writers = [], printed = [],
                   roi_coords = rc, email_sent = False\<rparr>))"

text \<open>
  \<^verbatim>\<open>main()\<close>: the loop runs inside \<^verbatim>\<open>try\<close>, and the \<^verbatim>\<open>finally\<close> block releases the writers
  on every way out of it, also when an exception passes through.
\<close>

definition main :: "args \<Rightarrow> 'f boot \<Rightarrow> 'f frame_input list \<Rightarrow> 'f main_2 ending" where
  "main a b is =
     (case main_startup a b of
        Inl e \<Rightarrow> Aborted e
      | Inr s0 \<Rightarrow>
          (case trace (main_body a) s0 is of
             [] \<Rightarrow> Running s0
           | tr \<Rightarrow>
               (case last tr of
                  Next d s \<Rightarrow> Running s
                | Exit d s \<Rightarrow> Ended (teardown s)
                | Raise e s \<Rightarrow> Crashed e (teardown s))))"

section \<open>Vocabulary of the properties\<close>

text \<open>
  An iteration is steady when a frame was read, the user did not ask to quit and creating a
  clip writer would not raise: the loop then goes on to the next iteration.
\<close>

definition steady :: "'f frame_input \<Rightarrow> bool" where
  "steady i = (ret i \<and> \<not> key_q i \<and> sink_open i \<noteq> OpenRaises)"

text \<open>The motion test of each script: line 85 of main.py, line 151 of main_2.py.\<close>

definition motion_py :: "'f frame_input \<Rightarrow> bool" where
  "motion_py i = (0 < contours i)"

definition motion_2 :: "args \<Rightarrow> 'f frame_input \<Rightarrow> bool" where
  "motion_2 a i = (real_of_int (sensitivity a) < motion_area i)"

text \<open>
  The tests of lines 91 and 102 of main.py (154 and 169 of main_2.py), read on the state an
  iteration starts from: \<open>m\<close> is the motion test of the frame and \<open>mt\<close>, \<open>nt\<close> are the two
  thresholds. The counters are compared after their increment.
\<close>

definition start_test :: "int \<Rightarrow> bool \<Rightarrow> ('f, 'z) session_scheme \<Rightarrow> bool" where
  "start_test mt m s = (m \<and> mt < motion_counter s + 1 \<and> \<not> motion_detected s)"

definition stop_test :: "int \<Rightarrow> bool \<Rightarrow> ('f, 'z) session_scheme \<Rightarrow> bool" where
  "stop_test nt m s = (\<not> m \<and> nt < no_motion_counter s + 1 \<and> motion_detected s)"

text \<open>
  In main.py the variable \<^verbatim>\<open>filename\<close> is bound once a clip was started, which is all that
  line 103 needs.
\<close>

definition named :: "('f, 'g) main_py \<Rightarrow> bool" where
  "named s = (motion_detected s \<longrightarrow> filename s \<noteq> None)"

text \<open>
  The frames a run has seen since its last stop (all of them when it never stopped), given
  the decisions of the iterations: the frames the motion counter has been counting on.
\<close>

definition since_stop :: "decision list \<Rightarrow> 'i list \<Rightarrow> 'i list" where
  "since_stop ds is = rev (map snd (takeWhile (\<lambda>p. fst p \<noteq> Stop) (rev (zip ds is))))"

text \<open>
  The flag and the two counters alone, as lines 85-108 of main.py and 151-176 of main_2.py
  update them on a frame with motion test \<open>m\<close>, with the decision of each frame. The state
  is the triple of \<^verbatim>\<open>motion_detected\<close>, \<^verbatim>\<open>motion_counter\<close> and \<^verbatim>\<open>no_motion_counter\<close>.
\<close>

fun debounce :: "int \<Rightarrow> int \<Rightarrow> bool \<times> int \<times> int \<Rightarrow> bool list \<Rightarrow> decision list" where
  "debounce mt nt v [] = []"
| "debounce mt nt (md, mc, nmc) (m # ms) =
     (if m then
        (if mt < mc + 1 \<and> \<not> md then Start # debounce mt nt (True, mc + 1, 0) ms
         else NoChange # debounce mt nt (md, mc + 1, 0) ms)
      else
        (if nt < nmc + 1 \<and> md then Stop # debounce mt nt (False, 0, nmc + 1) ms
         else NoChange # debounce mt nt (md, mc, nmc + 1) ms))"

definition view :: "('f, 'z) session_scheme \<Rightarrow> bool \<times> int \<times> int" where
  "view s = (motion_detected s, motion_counter s, no_motion_counter s)"



text \<open>
  The file name that each script gives the clip with number \<open>n\<close> started in iteration \<open>i\<close>
  (lines 46 of main.py, 157-159 and 31 of main_2.py).
\<close>

definition clip_name_py :: "int \<Rightarrow> 'f frame_input \<Rightarrow> string" where
  "clip_name_py n i = ''clip_'' @ fmt_03d n @ ''_'' @ (now_date i @ ''_'' @ now_time i) @ ''.mp4''"

definition clip_path_2 :: "int \<Rightarrow> 'f frame_input \<Rightarrow> string" where
  "clip_path_2 n i = path_join (now_date i) (''clip_'' @ fmt_03d n @ ''_'' @ now_time i @ ''.mp4'')"

text \<open>Consecutive numbers from \<open>n\<close> on, handed out along a list.\<close>

fun numbered :: "(int \<Rightarrow> 'i \<Rightarrow> 'a) \<Rightarrow> int \<Rightarrow> 'i list \<Rightarrow> 'a list" where
  "numbered f n [] = []"
| "numbered f n (i # is) = f n i # numbered f (n + 1) is"

text \<open>The inputs of the iterations of a run that took the start branch.\<close>

definition start_inputs :: "'s outcome list \<Rightarrow> 'i list \<Rightarrow> 'i list" where
  "start_inputs tr is = map snd (filter (\<lambda>p. decision_of (fst p) = Start) (zip tr is))"

text \<open>
  The specification's invariant of a region of interest (section 3 of the specification,
  not a function of the scripts): the rectangle lies within a frame of the given width and
  height.
\<close>

definition roi_invariant_spec :: "int \<times> int \<times> int \<times> int \<Rightarrow> int \<Rightarrow> int \<Rightarrow> bool" where
  "roi_invariant_spec r fw fh =
     (case r of (x, y, w, h) \<Rightarrow> 0 \<le> x \<and> 0 \<le> y \<and> 1 \<le> w \<and> 1 \<le> h \<and> x + w \<le> fw \<and> y + h \<le> fh)"

section \<open>Sample values\<close>

text \<open>
  A small run to evaluate the scripts on: frames are numbers, the blurred grayscale image
  of frame \<open>f\<close> is a 151 by 251 image filled with \<open>f\<close> (its ROI is the single pixel \<open>f\<close>),
  and drawing the rectangle leaves the number alone.
\<close>

definition ex_cv :: "(nat, nat) cv2" where
  "ex_cv = \<lparr>gray_blur = (\<lambda>f. replicate 151 (replicate 251 f)), rectangle = (\<lambda>f. f)\<rparr>"

definition ex_boot :: "nat boot" where
  "ex_boot = \<lparr>camera_opened = True, first_ret = True, first_frame = 0,
               boot_date = ''20240101'', boot_time = ''115959'', big_open = Opened\<rparr>"

definition ex_frame :: "bool \<Rightarrow> nat \<Rightarrow> nat frame_input" where
  "ex_frame m f = \<lparr>ret = True, frame = f, contours = (if m then 1 else 0),
                   motion_area = (if m then 1000 else 0), now_date = ''20240101'',
                   now_time = ''120000'', sink_open = Opened, key_q = False\<rparr>"

definition ex_cfg :: cfg where
  "ex_cfg = \<lparr>MOTION_THRESHOLD = 2, NO_MOTION_THRESHOLD = 2, refresh_interval = 3\<rparr>"

definition ex_args :: args where
  "ex_args = \<lparr>motion_threshold = 2, no_motion_threshold = 2, sensitivity = 500,
               roi = (250, 150, 200, 200)\<rparr>"

text \<open>The states both scripts enter the loop with, on \<open>ex_boot\<close>.\<close>

definition ex_idle :: "(nat, nat) main_py" where
  "ex_idle = \<lparr>clip_number = 1, motion_detected = False, motion_counter = 0,
               no_motion_counter = 0, out = None, frame_count = 0,
               big_clip_out = VideoWriter ''full_20240101_115959.mp4'' Opened,
               writers = [], printed = [], first_gray_roi = [[0]], filename = None\<rparr>"

definition ex_idle_2 :: "nat main_2" where
  "ex_idle_2 = \<lparr>clip_number = 1, motion_detected = False, motion_counter = 0,
                 no_motion_counter = 0, out = None, frame_count = 0,
                 big_clip_out = VideoWriter ''20240101/full_115959.mp4'' Opened,
                 writers = [], printed = [], roi_coords = (250, 150, 200, 200),
                 email_sent = False\<rparr>"

section \<open>Facts about the steps\<close>

lemmas ex_defs = ex_cfg_def ex_args_def ex_frame_def ex_idle_def ex_idle_2_def ex_cv_def

lemmas step_defs = loop_body_def motion_block_def start_recording_def stop_recording_def
  record_frame_def main_body_def motion_block_2_def start_recording_2_def stop_recording_2_def
  record_frame_2_def create_new_writer_def create_video_writer_def print_def write_clip_def
  release_out_def on_writer_def update_background_def Let_def

subsection \<open>Which branch an iteration took\<close>

lemma start_recording_decision:
  "decision_of (start_recording s i) = (if sink_open i = OpenRaises then NoChange else Start)"
  by (simp add: start_recording_def create_new_writer_def Let_def)

lemma stop_recording_decision:
  "decision_of (stop_recording s) = (if filename s = None then NoChange else Stop)"
  by (simp add: stop_recording_def Let_def split: option.split)

lemma motion_block_Start: "decision_of (motion_block c s i) = Start \<Longrightarrow> \<not> motion_detected s"
  by (simp add: motion_block_def Let_def start_recording_decision stop_recording_decision
      split: if_splits)

lemma motion_block_Stop: "decision_of (motion_block c s i) = Stop \<Longrightarrow> motion_detected s"
  by (simp add: motion_block_def Let_def start_recording_decision stop_recording_decision
      split: if_splits)

lemma record_frame_decision:
  "decision_of (record_frame c cv d s i) = (if refresh_interval c = 0 then NoChange else d)"
  by (simp add: record_frame_def Let_def)

lemma loop_body_decision:
  "decision_of (loop_body c cv s i) \<noteq> NoChange \<Longrightarrow>
   decision_of (loop_body c cv s i) =
     decision_of (motion_block c (s\<lparr>frame_count := frame_count s + 1\<rparr>) i)"
  by (cases "motion_block c (s\<lparr>frame_count := frame_count s + 1\<rparr>) i")
     (simp_all add: loop_body_def Let_def record_frame_decision split: if_splits)

lemma start_recording_2_decision:
  "decision_of (start_recording_2 s i) = (if sink_open i = OpenRaises then NoChange else Start)"
  by (simp add: start_recording_2_def Let_def)

lemma stop_recording_2_decision: "decision_of (stop_recording_2 s) = Stop"
  by (simp add: stop_recording_2_def Let_def)

lemma motion_block_2_Start:
  "decision_of (motion_block_2 a s i) = Start \<Longrightarrow> \<not> motion_detected s"
  by (simp add: motion_block_2_def Let_def start_recording_2_decision stop_recording_2_decision
      split: if_splits)

lemma motion_block_2_Stop: "decision_of (motion_block_2 a s i) = Stop \<Longrightarrow> motion_detected s"
  by (simp add: motion_block_2_def Let_def start_recording_2_decision stop_recording_2_decision
      split: if_splits)

lemma record_frame_2_decision: "decision_of (record_frame_2 d s i) = d"
  by (simp add: record_frame_2_def Let_def)

lemma main_body_decision:
  "decision_of (main_body a s i) \<noteq> NoChange \<Longrightarrow>
   decision_of (main_body a s i) =
     decision_of (motion_block_2 a (s\<lparr>frame_count := frame_count s + 1\<rparr>) i)"
  by (cases "motion_block_2 a (s\<lparr>frame_count := frame_count s + 1\<rparr>) i")
     (simp_all add: main_body_def Let_def record_frame_2_decision split: if_splits)

subsection \<open>main.py, field by field\<close>

lemmas block_defs = motion_block_def start_recording_def stop_recording_def create_new_writer_def
  print_def release_out_def Let_def start_test_def stop_test_def motion_py_def

lemma motion_block_fields:
  "motion_counter (state_of (motion_block c s i)) =
     (if motion_py i then motion_counter s + 1
      else if stop_test (NO_MOTION_THRESHOLD c) (motion_py i) s \<and> filename s \<noteq> None then 0
      else motion_counter s)"
  "no_motion_counter (state_of (motion_block c s i)) =
     (if motion_py i then 0 else no_motion_counter s + 1)"
  "motion_detected (state_of (motion_block c s i)) =
     (if motion_py i
      then motion_detected s \<or>
           (start_test (MOTION_THRESHOLD c) (motion_py i) s \<and> sink_open i \<noteq> OpenRaises)
      else motion_detected s \<and>
           \<not> (stop_test (NO_MOTION_THRESHOLD c) (motion_py i) s \<and> filename s \<noteq> None))"
  "clip_number (state_of (motion_block c s i)) =
     (if start_test (MOTION_THRESHOLD c) (motion_py i) s then clip_number s + 1
      else clip_number s)"
  "frame_count (state_of (motion_block c s i)) = frame_count s"
  "big_clip_out (state_of (motion_block c s i)) = big_clip_out s"
  "first_gray_roi (state_of (motion_block c s i)) = first_gray_roi s"
  by (auto simp add: block_defs split: option.split)

lemma motion_block_outcome:
  "is_Raise (motion_block c s i) =
     ((start_test (MOTION_THRESHOLD c) (motion_py i) s \<and> sink_open i = OpenRaises) \<or>
      (stop_test (NO_MOTION_THRESHOLD c) (motion_py i) s \<and> filename s = None))"
  "decision_of (motion_block c s i) =
     (if start_test (MOTION_THRESHOLD c) (motion_py i) s \<and> sink_open i \<noteq> OpenRaises then Start
      else if stop_test (NO_MOTION_THRESHOLD c) (motion_py i) s \<and> filename s \<noteq> None then Stop
      else NoChange)"
  "is_Next (motion_block c s i) = (\<not> is_Raise (motion_block c s i))"
  by (auto simp add: block_defs split: option.split)

lemma motion_block_named: "named s \<Longrightarrow> named (state_of (motion_block c s i))"
  by (auto simp add: block_defs named_def split: option.split)

lemma record_frame_fields:
  "motion_counter (state_of (record_frame c cv d s i)) = motion_counter s"
  "no_motion_counter (state_of (record_frame c cv d s i)) = no_motion_counter s"
  "motion_detected (state_of (record_frame c cv d s i)) = motion_detected s"
  "clip_number (state_of (record_frame c cv d s i)) = clip_number s"
  "frame_count (state_of (record_frame c cv d s i)) = frame_count s"
  "out (state_of (record_frame c cv d s i)) = out s"
  "filename (state_of (record_frame c cv d s i)) = filename s"
  "big_clip_out (state_of (record_frame c cv d s i)) = write_frame (frame i) (big_clip_out s)"
  "writers (state_of (record_frame c cv d s i)) = writers (write_clip (frame i) s)"
  by (simp_all add: record_frame_def Let_def print_def write_clip_def split: option.split)

lemma record_frame_outcome:
  "is_Raise (record_frame c cv d s i) = (refresh_interval c = 0)"
  "is_Next (record_frame c cv d s i) = (refresh_interval c \<noteq> 0 \<and> \<not> key_q i)"
  by (simp_all add: record_frame_def Let_def)


lemma loop_body_no_frame:
  "\<not> ret i \<Longrightarrow> loop_body c cv s i =
     Exit NoChange (print ''Error: Failed to capture frame.'' (s\<lparr>frame_count := frame_count s + 1\<rparr>))"
  by (simp add: loop_body_def Let_def)

lemma loop_body_frame:
  "ret i \<Longrightarrow> loop_body c cv s i =
     (case motion_block c (s\<lparr>frame_count := frame_count s + 1\<rparr>) i of
        Next d s1 \<Rightarrow> record_frame c cv d s1 i
      | r \<Rightarrow> r)"
  by (simp add: loop_body_def Let_def)

lemma motion_block_not_Exit: "motion_block c s i \<noteq> Exit d s'"
  by (simp add: block_defs split: option.split)

lemma loop_body_cases:
  assumes "ret i"
  obtains (through) d s1 where "motion_block c (s\<lparr>frame_count := frame_count s + 1\<rparr>) i = Next d s1"
      "loop_body c cv s i = record_frame c cv d s1 i"
  | (raised) e s1 where "motion_block c (s\<lparr>frame_count := frame_count s + 1\<rparr>) i = Raise e s1"
      "loop_body c cv s i = Raise e s1"
proof (cases "motion_block c (s\<lparr>frame_count := frame_count s + 1\<rparr>) i")
  case (Next d s1)
  then show ?thesis using through assms by (simp add: loop_body_frame)
next
  case (Exit d s1)
  then show ?thesis using motion_block_not_Exit by blast
next
  case (Raise e s1)
  then show ?thesis using raised assms by (simp add: loop_body_frame)
qed

lemma loop_body_via_block:
  assumes "ret i"
  shows "motion_counter (state_of (loop_body c cv s i)) =
           motion_counter (state_of (motion_block c (s\<lparr>frame_count := frame_count s + 1\<rparr>) i))"
    and "no_motion_counter (state_of (loop_body c cv s i)) =
           no_motion_counter (state_of (motion_block c (s\<lparr>frame_count := frame_count s + 1\<rparr>) i))"
    and "motion_detected (state_of (loop_body c cv s i)) =
           motion_detected (state_of (motion_block c (s\<lparr>frame_count := frame_count s + 1\<rparr>) i))"
    and "clip_number (state_of (loop_body c cv s i)) =
           clip_number (state_of (motion_block c (s\<lparr>frame_count := frame_count s + 1\<rparr>) i))"
    and "frame_count (state_of (loop_body c cv s i)) =
           frame_count (state_of (motion_block c (s\<lparr>frame_count := frame_count s + 1\<rparr>) i))"
    and "filename (state_of (loop_body c cv s i)) =
           filename (state_of (motion_block c (s\<lparr>frame_count := frame_count s + 1\<rparr>) i))"
    and "out (state_of (loop_body c cv s i)) =
           out (state_of (motion_block c (s\<lparr>frame_count := frame_count s + 1\<rparr>) i))"
  by (rule loop_body_cases [OF assms, of c s cv]; simp add: record_frame_fields)+

lemma tests_frame_count [simp]:
  "start_test mt m (s\<lparr>frame_count := n\<rparr>) = start_test mt m s"
  "stop_test nt m (s\<lparr>frame_count := n\<rparr>) = stop_test nt m s"
  by (simp_all add: start_test_def stop_test_def)

lemma loop_body_fields:
  assumes "ret i"
  shows "motion_counter (state_of (loop_body c cv s i)) =
     (if motion_py i then motion_counter s + 1
      else if stop_test (NO_MOTION_THRESHOLD c) (motion_py i) s \<and> filename s \<noteq> None then 0
      else motion_counter s)"
  and "no_motion_counter (state_of (loop_body c cv s i)) =
     (if motion_py i then 0 else no_motion_counter s + 1)"
  and "motion_detected (state_of (loop_body c cv s i)) =
     (if motion_py i
      then motion_detected s \<or>
           (start_test (MOTION_THRESHOLD c) (motion_py i) s \<and> sink_open i \<noteq> OpenRaises)
      else motion_detected s \<and>
           \<not> (stop_test (NO_MOTION_THRESHOLD c) (motion_py i) s \<and> filename s \<noteq> None))"
  and "clip_number (state_of (loop_body c cv s i)) =
     (if start_test (MOTION_THRESHOLD c) (motion_py i) s then clip_number s + 1
      else clip_number s)"
  and "frame_count (state_of (loop_body c cv s i)) = frame_count s + 1"
  unfolding loop_body_via_block [OF assms] motion_block_fields by auto

lemma loop_body_outcome:
  "is_Next (loop_body c cv s i) =
     (ret i \<and> \<not> key_q i \<and> refresh_interval c \<noteq> 0 \<and>
      \<not> is_Raise (motion_block c (s\<lparr>frame_count := frame_count s + 1\<rparr>) i))"
  "is_Raise (loop_body c cv s i) =
     (ret i \<and> (refresh_interval c = 0 \<or>
       is_Raise (motion_block c (s\<lparr>frame_count := frame_count s + 1\<rparr>) i)))"
  "decision_of (loop_body c cv s i) =
     (if ret i \<and> refresh_interval c \<noteq> 0
      then decision_of (motion_block c (s\<lparr>frame_count := frame_count s + 1\<rparr>) i)
      else NoChange)"
proof -
  show "is_Next (loop_body c cv s i) =
     (ret i \<and> \<not> key_q i \<and> refresh_interval c \<noteq> 0 \<and>
      \<not> is_Raise (motion_block c (s\<lparr>frame_count := frame_count s + 1\<rparr>) i))"
  proof (cases "ret i")
    case True
    show ?thesis
      by (rule loop_body_cases [OF True, of c s cv]) (auto simp add: True record_frame_outcome)
  qed (simp add: loop_body_no_frame)
  show "is_Raise (loop_body c cv s i) =
     (ret i \<and> (refresh_interval c = 0 \<or>
       is_Raise (motion_block c (s\<lparr>frame_count := frame_count s + 1\<rparr>) i)))"
  proof (cases "ret i")
    case True
    show ?thesis
      by (rule loop_body_cases [OF True, of c s cv]) (auto simp add: True record_frame_outcome)
  qed (simp add: loop_body_no_frame)
  show "decision_of (loop_body c cv s i) =
     (if ret i \<and> refresh_interval c \<noteq> 0
      then decision_of (motion_block c (s\<lparr>frame_count := frame_count s + 1\<rparr>) i)
      else NoChange)"
  proof (cases "ret i")
    case True
    show ?thesis
      by (rule loop_body_cases [OF True, of c s cv]) (simp_all add: True record_frame_decision)
  qed (simp add: loop_body_no_frame)
qed

lemma loop_body_named: "named s \<Longrightarrow> named (state_of (loop_body c cv s i))"
proof (cases "ret i")
  case True
  assume "named s"
  then have "named (s\<lparr>frame_count := frame_count s + 1\<rparr>)" by (simp add: named_def)
  from motion_block_named [OF this, of c i] show ?thesis
    by (simp add: named_def loop_body_via_block [OF True])
next
  case False
  assume "named s"
  then show ?thesis using False by (simp add: loop_body_no_frame named_def print_def)
qed

subsection \<open>main_2.py, field by field\<close>

lemmas block_2_defs = motion_block_2_def start_recording_2_def stop_recording_2_def
  create_video_writer_def print_def release_out_def Let_def start_test_def stop_test_def
  motion_2_def

lemma motion_block_2_fields:
  "motion_counter (state_of (motion_block_2 a s i)) =
     (if motion_2 a i then motion_counter s + 1
      else if stop_test (no_motion_threshold a) (motion_2 a i) s then 0
      else motion_counter s)"
  "no_motion_counter (state_of (motion_block_2 a s i)) =
     (if motion_2 a i then 0 else no_motion_counter s + 1)"
  "motion_detected (state_of (motion_block_2 a s i)) =
     (if motion_2 a i
      then motion_detected s \<or>
           (start_test (motion_threshold a) (motion_2 a i) s \<and> sink_open i \<noteq> OpenRaises)
      else motion_detected s \<and> \<not> stop_test (no_motion_threshold a) (motion_2 a i) s)"
  "clip_number (state_of (motion_block_2 a s i)) =
     (if start_test (motion_threshold a) (motion_2 a i) s then clip_number s + 1
      else clip_number s)"
  "frame_count (state_of (motion_block_2 a s i)) = frame_count s"
  "big_clip_out (state_of (motion_block_2 a s i)) = big_clip_out s"
  "roi_coords (state_of (motion_block_2 a s i)) = roi_coords s"
  by (auto simp add: block_2_defs split: option.split)

lemma motion_block_2_outcome:
  "is_Raise (motion_block_2 a s i) =
     (start_test (motion_threshold a) (motion_2 a i) s \<and> sink_open i = OpenRaises)"
  "decision_of (motion_block_2 a s i) =
     (if start_test (motion_threshold a) (motion_2 a i) s \<and> sink_open i \<noteq> OpenRaises then Start
      else if stop_test (no_motion_threshold a) (motion_2 a i) s then Stop
      else NoChange)"
  "is_Next (motion_block_2 a s i) = (\<not> is_Raise (motion_block_2 a s i))"
  by (auto simp add: block_2_defs split: option.split)

lemma record_frame_2_fields:
  "motion_counter (state_of (record_frame_2 d s i)) = motion_counter s"
  "no_motion_counter (state_of (record_frame_2 d s i)) = no_motion_counter s"
  "motion_detected (state_of (record_frame_2 d s i)) = motion_detected s"
  "clip_number (state_of (record_frame_2 d s i)) = clip_number s"
  "frame_count (state_of (record_frame_2 d s i)) = frame_count s"
  "out (state_of (record_frame_2 d s i)) = out s"
  "roi_coords (state_of (record_frame_2 d s i)) = roi_coords s"
  "big_clip_out (state_of (record_frame_2 d s i)) = write_frame (frame i) (big_clip_out s)"
  "writers (state_of (record_frame_2 d s i)) = writers (write_clip (frame i) s)"
  by (simp_all add: record_frame_2_def Let_def print_def write_clip_def split: option.split)

lemma record_frame_2_outcome:
  "is_Raise (record_frame_2 d s i) = False"
  "is_Next (record_frame_2 d s i) = (\<not> key_q i)"
  by (simp_all add: record_frame_2_def Let_def)

lemma main_body_no_frame:
  "\<not> ret i \<Longrightarrow> main_body a s i = Exit NoChange (print ''Error: Failed to capture frame.'' s)"
  by (simp add: main_body_def Let_def)

lemma main_body_frame:
  "ret i \<Longrightarrow> main_body a s i =
     (case motion_block_2 a (s\<lparr>frame_count := frame_count s + 1\<rparr>) i of
        Next d s1 \<Rightarrow> record_frame_2 d s1 i
      | r \<Rightarrow> r)"
  by (simp add: main_body_def Let_def)

lemma motion_block_2_not_Exit: "motion_block_2 a s i \<noteq> Exit d s'"
  by (simp add: block_2_defs split: option.split)

lemma main_body_cases:
  assumes "ret i"
  obtains (through) d s1 where
      "motion_block_2 a (s\<lparr>frame_count := frame_count s + 1\<rparr>) i = Next d s1"
      "main_body a s i = record_frame_2 d s1 i"
  | (raised) e s1 where
      "motion_block_2 a (s\<lparr>frame_count := frame_count s + 1\<rparr>) i = Raise e s1"
      "main_body a s i = Raise e s1"
proof (cases "motion_block_2 a (s\<lparr>frame_count := frame_count s + 1\<rparr>) i")
  case (Next d s1)
  then show ?thesis using through assms by (simp add: main_body_frame)
next
  case (Exit d s1)
  then show ?thesis using motion_block_2_not_Exit by blast
next
  case (Raise e s1)
  then show ?thesis using raised assms by (simp add: main_body_frame)
qed

lemma main_body_via_block:
  assumes "ret i"
  shows "motion_counter (state_of (main_body a s i)) =
           motion_counter (state_of (motion_block_2 a (s\<lparr>frame_count := frame_count s + 1\<rparr>) i))"
    and "no_motion_counter (state_of (main_body a s i)) =
           no_motion_counter (state_of (motion_block_2 a (s\<lparr>frame_count := frame_count s + 1\<rparr>) i))"
    and "motion_detected (state_of (main_body a s i)) =
           motion_detected (state_of (motion_block_2 a (s\<lparr>frame_count := frame_count s + 1\<rparr>) i))"
    and "clip_number (state_of (main_body a s i)) =
           clip_number (state_of (motion_block_2 a (s\<lparr>frame_count := frame_count s + 1\<rparr>) i))"
    and "frame_count (state_of (main_body a s i)) =
           frame_count (state_of (motion_block_2 a (s\<lparr>frame_count := frame_count s + 1\<rparr>) i))"
    and "roi_coords (state_of (main_body a s i)) =
           roi_coords (state_of (motion_block_2 a (s\<lparr>frame_count := frame_count s + 1\<rparr>) i))"
    and "out (state_of (main_body a s i)) =
           out (state_of (motion_block_2 a (s\<lparr>frame_count := frame_count s + 1\<rparr>) i))"
  by (rule main_body_cases [OF assms, of a s]; simp add: record_frame_2_fields)+

lemma main_body_fields:
  assumes "ret i"
  shows "motion_counter (state_of (main_body a s i)) =
     (if motion_2 a i then motion_counter s + 1
      else if stop_test (no_motion_threshold a) (motion_2 a i) s then 0
      else motion_counter s)"
  and "no_motion_counter (state_of (main_body a s i)) =
     (if motion_2 a i then 0 else no_motion_counter s + 1)"
  and "motion_detected (state_of (main_body a s i)) =
     (if motion_2 a i
      then motion_detected s \<or>
           (start_test (motion_threshold a) (motion_2 a i) s \<and> sink_open i \<noteq> OpenRaises)
      else motion_detected s \<and> \<not> stop_test (no_motion_threshold a) (motion_2 a i) s)"
  and "clip_number (state_of (main_body a s i)) =
     (if start_test (motion_threshold a) (motion_2 a i) s then clip_number s + 1
      else clip_number s)"
  and "frame_count (state_of (main_body a s i)) = frame_count s + 1"
  unfolding main_body_via_block [OF assms] motion_block_2_fields by auto

lemma main_body_outcome:
  "is_Next (main_body a s i) =
     (ret i \<and> \<not> key_q i \<and>
      \<not> is_Raise (motion_block_2 a (s\<lparr>frame_count := frame_count s + 1\<rparr>) i))"
  "is_Raise (main_body a s i) =
     (ret i \<and> is_Raise (motion_block_2 a (s\<lparr>frame_count := frame_count s + 1\<rparr>) i))"
  "decision_of (main_body a s i) =
     (if ret i
      then decision_of (motion_block_2 a (s\<lparr>frame_count := frame_count s + 1\<rparr>) i)
      else NoChange)"
proof -
  show "is_Next (main_body a s i) =
     (ret i \<and> \<not> key_q i \<and>
      \<not> is_Raise (motion_block_2 a (s\<lparr>frame_count := frame_count s + 1\<rparr>) i))"
  proof (cases "ret i")
    case True
    show ?thesis
      by (rule main_body_cases [OF True, of a s]) (auto simp add: True record_frame_2_outcome)
  qed (simp add: main_body_no_frame)
  show "is_Raise (main_body a s i) =
     (ret i \<and> is_Raise (motion_block_2 a (s\<lparr>frame_count := frame_count s + 1\<rparr>) i))"
  proof (cases "ret i")
    case True
    show ?thesis
      by (rule main_body_cases [OF True, of a s]) (auto simp add: True record_frame_2_outcome)
  qed (simp add: main_body_no_frame)
  show "decision_of (main_body a s i) =
     (if ret i
      then decision_of (motion_block_2 a (s\<lparr>frame_count := frame_count s + 1\<rparr>) i)
      else NoChange)"
  proof (cases "ret i")
    case True
    show ?thesis
      by (rule main_body_cases [OF True, of a s]) (simp_all add: True record_frame_2_decision)
  qed (simp add: main_body_no_frame)
qed

subsection \<open>Runs\<close>

lemma final_Nil [simp]: "final body s [] = s"
  by (simp add: final_def)

lemma final_last:
  "final body s is = (if trace body s is = [] then s else state_of (last (trace body s is)))"
  by (simp add: final_def split: list.split)

lemma final_Cons:
  "final body s (i # is) = (case body s i of Next d s' \<Rightarrow> final body s' is | r \<Rightarrow> state_of r)"
  by (cases "body s i") (simp_all add: final_def split: list.split)

lemma decisions_Nil [simp]: "decisions body s [] = []"
  by (simp add: decisions_def)

lemma trace_length_le: "length (trace body s is) \<le> length is"
  by (induction "is" arbitrary: s) (auto split: outcome.split)

lemma trace_steady:
  assumes step: "\<And>s i. I s \<Longrightarrow> P i \<Longrightarrow> is_Next (body s i) \<and> I (state_of (body s i))"
    and "I s" and "list_all P is"
  shows "length (trace body s is) = length is \<and> list_all is_Next (trace body s is) \<and>
         I (final body s is)"
  using assms(2,3)
proof (induction "is" arbitrary: s)
  case Nil
  then show ?case by simp
next
  case (Cons i "is")
  from Cons.prems have "is_Next (body s i)" and "I (state_of (body s i))"
    using step by simp_all
  then obtain d s' where b: "body s i = Next d s'" and "I s'"
    by (cases "body s i") simp_all
  with Cons.IH [of s'] Cons.prems show ?case
    by (simp add: final_Cons)
qed

lemma trace_snoc:
  "length (trace body s is) = length is \<Longrightarrow> list_all is_Next (trace body s is) \<Longrightarrow>
   trace body s (is @ [i]) = trace body s is @ [body (final body s is) i]"
proof (induction "is" arbitrary: s)
  case Nil
  show ?case by (cases "body s i") simp_all
next
  case (Cons j "is")
  then show ?case
    by (cases "body s j") (simp_all add: final_Cons)
qed

lemma final_snoc:
  "length (trace body s is) = length is \<Longrightarrow> list_all is_Next (trace body s is) \<Longrightarrow>
   final body s (is @ [i]) = state_of (body (final body s is) i)"
  by (simp add: trace_snoc final_last)

lemma since_stop_Nil [simp]: "since_stop [] [] = []"
  by (simp add: since_stop_def)

lemma since_stop_snoc:
  "length ds = length is \<Longrightarrow>
   since_stop (ds @ [d]) (is @ [i]) = (if d = Stop then [] else since_stop ds is @ [i])"
  by (simp add: since_stop_def)

text \<open>
  A counter that goes up on every motion frame and is cleared by a stop only holds the number
  of motion frames since the last stop.
\<close>

lemma counts_since_stop:
  fixes body :: "'s \<Rightarrow> 'i \<Rightarrow> 's outcome" and mc :: "'s \<Rightarrow> int"
  assumes step: "\<And>s i. I s \<Longrightarrow> P i \<Longrightarrow> is_Next (body s i) \<and> I (state_of (body s i))"
    and count: "\<And>s i. I s \<Longrightarrow> P i \<Longrightarrow> mc (state_of (body s i)) =
        (if decision_of (body s i) = Stop then 0 else if mot i then mc s + 1 else mc s)"
    and "I s" and "mc s = 0" and "list_all P is"
  shows "mc (final body s is) = int (length (filter mot (since_stop (decisions body s is) is)))"
  using assms(5)
proof (induction "is" rule: rev_induct)
  case Nil
  then show ?case using \<open>mc s = 0\<close> by simp
next
  case (snoc i "is")
  then have P: "list_all P is" "P i" by simp_all
  from trace_steady [of I P body, OF step \<open>I s\<close> P(1)]
  have len: "length (trace body s is) = length is"
    and nx: "list_all is_Next (trace body s is)" and inv: "I (final body s is)"
    by simp_all
  have tr: "trace body s (is @ [i]) = trace body s is @ [body (final body s is) i]"
    using trace_snoc [OF len nx] .
  have fin: "final body s (is @ [i]) = state_of (body (final body s is) i)"
    using final_snoc [OF len nx] .
  have ds: "decisions body s (is @ [i]) =
      decisions body s is @ [decision_of (body (final body s is) i)]"
    by (simp add: decisions_def tr)
  have dl: "length (decisions body s is) = length is"
    by (simp add: decisions_def len)
  show ?case
    unfolding fin ds since_stop_snoc [OF dl] count [OF inv P(2)]
    using snoc.IH [OF P(1)] by simp
qed

subsection \<open>Steady iterations\<close>

lemma loop_body_steady:
  assumes "named s" and "steady i" and "refresh_interval c \<noteq> 0"
  shows "is_Next (loop_body c cv s i) \<and> named (state_of (loop_body c cv s i))"
proof -
  have "\<not> is_Raise (motion_block c (s\<lparr>frame_count := frame_count s + 1\<rparr>) i)"
    using assms(1,2) by (auto simp add: motion_block_outcome steady_def named_def stop_test_def)
  then show ?thesis
    using assms loop_body_named [of s c cv i] by (simp add: loop_body_outcome steady_def)
qed

lemma loop_body_steady_decision:
  assumes "named s" and "steady i" and "refresh_interval c \<noteq> 0"
  shows "decision_of (loop_body c cv s i) =
     (if start_test (MOTION_THRESHOLD c) (motion_py i) s then Start
      else if stop_test (NO_MOTION_THRESHOLD c) (motion_py i) s then Stop
      else NoChange)"
  using assms
  by (auto simp add: loop_body_outcome motion_block_outcome steady_def named_def stop_test_def)

lemma loop_body_steady_view:
  assumes "named s" and "steady i" and "refresh_interval c \<noteq> 0"
  shows "motion_counter (state_of (loop_body c cv s i)) =
     (if motion_py i then motion_counter s + 1
      else if stop_test (NO_MOTION_THRESHOLD c) (motion_py i) s then 0
      else motion_counter s)"
    and "no_motion_counter (state_of (loop_body c cv s i)) =
     (if motion_py i then 0 else no_motion_counter s + 1)"
    and "motion_detected (state_of (loop_body c cv s i)) =
     (if motion_py i then motion_detected s \<or> start_test (MOTION_THRESHOLD c) (motion_py i) s
      else motion_detected s \<and> \<not> stop_test (NO_MOTION_THRESHOLD c) (motion_py i) s)"
  using assms
  by (auto simp add: loop_body_fields steady_def named_def stop_test_def)

lemma main_body_steady:
  assumes "steady i"
  shows "is_Next (main_body a s i)"
  using assms by (simp add: main_body_outcome motion_block_2_outcome steady_def)

lemma main_body_steady_decision:
  assumes "steady i"
  shows "decision_of (main_body a s i) =
     (if start_test (motion_threshold a) (motion_2 a i) s then Start
      else if stop_test (no_motion_threshold a) (motion_2 a i) s then Stop
      else NoChange)"
  using assms by (simp add: main_body_outcome motion_block_2_outcome steady_def)

lemma main_body_steady_view:
  assumes "steady i"
  shows "motion_counter (state_of (main_body a s i)) =
     (if motion_2 a i then motion_counter s + 1
      else if stop_test (no_motion_threshold a) (motion_2 a i) s then 0
      else motion_counter s)"
    and "no_motion_counter (state_of (main_body a s i)) =
     (if motion_2 a i then 0 else no_motion_counter s + 1)"
    and "motion_detected (state_of (main_body a s i)) =
     (if motion_2 a i then motion_detected s \<or> start_test (motion_threshold a) (motion_2 a i) s
      else motion_detected s \<and> \<not> stop_test (no_motion_threshold a) (motion_2 a i) s)"
  using assms by (auto simp add: main_body_fields steady_def)

text \<open>On steady iterations the decisions of a loop are those of \<open>debounce\<close>.\<close>

lemma decisions_Cons_Next:
  "body s i = Next d s' \<Longrightarrow> decisions body s (i # is) = d # decisions body s' is"
  by (simp add: decisions_def)

lemma decisions_debounce:
  fixes body :: "('f, 'z) session_scheme \<Rightarrow> 'i \<Rightarrow> ('f, 'z) session_scheme outcome"
  assumes step: "\<And>s i. I s \<Longrightarrow> P i \<Longrightarrow> is_Next (body s i) \<and> I (state_of (body s i))"
    and dec: "\<And>s i. I s \<Longrightarrow> P i \<Longrightarrow> decision_of (body s i) =
        (if start_test mt (mot i) s then Start else if stop_test nt (mot i) s then Stop
         else NoChange)"
    and vw: "\<And>s i. I s \<Longrightarrow> P i \<Longrightarrow> view (state_of (body s i)) =
        (if mot i then (motion_detected s \<or> start_test mt (mot i) s, motion_counter s + 1, 0)
         else if stop_test nt (mot i) s then (False, 0, no_motion_counter s + 1)
         else (motion_detected s, motion_counter s, no_motion_counter s + 1))"
    and "I s" and "list_all P is"
  shows "decisions body s is = debounce mt nt (view s) (map mot is)"
  using assms(4,5)
proof (induction "is" arbitrary: s)
  case Nil
  then show ?case by simp
next
  case (Cons i "is")
  then have "I s" "P i" "list_all P is" by simp_all
  from step [OF \<open>I s\<close> \<open>P i\<close>] obtain d s' where b: "body s i = Next d s'" and "I s'"
    by (cases "body s i") simp_all
  have d: "d = (if start_test mt (mot i) s then Start else if stop_test nt (mot i) s then Stop
         else NoChange)"
    using dec [OF \<open>I s\<close> \<open>P i\<close>] b by simp
  have v: "view s' =
        (if mot i then (motion_detected s \<or> start_test mt (mot i) s, motion_counter s + 1, 0)
         else if stop_test nt (mot i) s then (False, 0, no_motion_counter s + 1)
         else (motion_detected s, motion_counter s, no_motion_counter s + 1))"
    using vw [OF \<open>I s\<close> \<open>P i\<close>] b by simp
  have "decisions body s (i # is) = d # debounce mt nt (view s') (map mot is)"
    using decisions_Cons_Next [of body s i d s' "is"] b Cons.IH [OF \<open>I s'\<close> \<open>list_all P is\<close>] by simp
  also have "\<dots> = debounce mt nt (view s) (map mot (i # is))"
    unfolding d v by (auto simp add: view_def start_test_def stop_test_def)
  finally show ?case .
qed

lemma loop_body_debounce:
  assumes "named s" and "list_all steady is" and "refresh_interval c \<noteq> 0"
  shows "decisions (loop_body c cv) s is =
     debounce (MOTION_THRESHOLD c) (NO_MOTION_THRESHOLD c) (view s) (map motion_py is)"
proof (rule decisions_debounce [where I = named and P = steady])
  fix s :: "('a, 'b) main_py" and i :: "'a frame_input"
  assume h: "named s" "steady i"
  show "is_Next (loop_body c cv s i) \<and> named (state_of (loop_body c cv s i))"
    using loop_body_steady [OF h assms(3)] .
  show "decision_of (loop_body c cv s i) =
        (if start_test (MOTION_THRESHOLD c) (motion_py i) s then Start
         else if stop_test (NO_MOTION_THRESHOLD c) (motion_py i) s then Stop else NoChange)"
    using loop_body_steady_decision [OF h assms(3)] .
  show "view (state_of (loop_body c cv s i)) =
        (if motion_py i
         then (motion_detected s \<or> start_test (MOTION_THRESHOLD c) (motion_py i) s,
               motion_counter s + 1, 0)
         else if stop_test (NO_MOTION_THRESHOLD c) (motion_py i) s
           then (False, 0, no_motion_counter s + 1)
           else (motion_detected s, motion_counter s, no_motion_counter s + 1))"
    unfolding view_def loop_body_steady_view [OF h assms(3)]
    by (auto simp add: stop_test_def)
qed (use assms in simp_all)

lemma main_body_debounce:
  assumes "list_all steady is"
  shows "decisions (main_body a) s is =
     debounce (motion_threshold a) (no_motion_threshold a) (view s) (map (motion_2 a) is)"
proof (rule decisions_debounce [where I = "\<lambda>s. True" and P = steady])
  fix s :: "'a main_2" and i :: "'a frame_input"
  assume h: "steady i"
  show "is_Next (main_body a s i) \<and> True"
    using main_body_steady [OF h] by simp
  show "decision_of (main_body a s i) =
        (if start_test (motion_threshold a) (motion_2 a i) s then Start
         else if stop_test (no_motion_threshold a) (motion_2 a i) s then Stop else NoChange)"
    using main_body_steady_decision [OF h] .
  show "view (state_of (main_body a s i)) =
        (if motion_2 a i
         then (motion_detected s \<or> start_test (motion_threshold a) (motion_2 a i) s,
               motion_counter s + 1, 0)
         else if stop_test (no_motion_threshold a) (motion_2 a i) s
           then (False, 0, no_motion_counter s + 1)
           else (motion_detected s, motion_counter s, no_motion_counter s + 1))"
    unfolding view_def main_body_steady_view [OF h]
    by (auto simp add: stop_test_def)
qed (use assms in simp_all)

lemma startup_view:
  "startup cv b = Inr s0 \<Longrightarrow> view s0 = (False, 0, 0) \<and> named s0"
  by (auto simp add: startup_def view_def named_def split: if_splits)

lemma main_startup_view:
  "main_startup a b = Inr s0 \<Longrightarrow> view s0 = (False, 0, 0)"
  by (auto simp add: main_startup_def view_def Let_def split: if_splits)

subsection \<open>The sample run\<close>

lemma roi_crop_ex: "roi_crop (replicate 151 (replicate 251 f)) = [[f]]"
  by (simp add: roi_crop_def roi_x_def roi_y_def roi_width_def roi_height_def)

lemma startup_ex: "startup ex_cv ex_boot = Inr ex_idle"
  by (simp add: startup_def ex_cv_def ex_boot_def ex_idle_def roi_crop_ex)

lemma main_startup_ex: "main_startup ex_args ex_boot = Inr ex_idle_2"
  by (simp add: main_startup_def ex_args_def ex_boot_def ex_idle_2_def validate_roi_def
      width_def height_def create_video_writer_def path_join_def)

subsection \<open>What the motion counter counts\<close>

lemma counts_trailing_run:
  fixes body :: "'s \<Rightarrow> 'i \<Rightarrow> 's outcome" and mc :: "'s \<Rightarrow> int"
  assumes step: "\<And>s i. I s \<Longrightarrow> P i \<Longrightarrow> is_Next (body s i) \<and> I (state_of (body s i))"
    and count: "\<And>s i. I s \<Longrightarrow> P i \<Longrightarrow> mc (state_of (body s i)) =
        (if decision_of (body s i) = Stop then 0 else if mot i then mc s + 1 else mc s)"
    and nostop: "\<And>s i. I s \<Longrightarrow> P i \<Longrightarrow> mot i \<Longrightarrow> decision_of (body s i) \<noteq> Stop"
    and "I s" and "0 \<le> mc s" and "list_all P is"
  shows "int (length (takeWhile mot (rev is))) \<le> mc (final body s is)"
  using assms(6)
proof (induction "is" rule: rev_induct)
  case Nil
  then show ?case using \<open>0 \<le> mc s\<close> by simp
next
  case (snoc i "is")
  then have P: "list_all P is" "P i" by simp_all
  from trace_steady [of I P body, OF step \<open>I s\<close> P(1)]
  have len: "length (trace body s is) = length is"
    and nx: "list_all is_Next (trace body s is)" and inv: "I (final body s is)"
    by simp_all
  have fin: "final body s (is @ [i]) = state_of (body (final body s is) i)"
    using final_snoc [OF len nx] .
  show ?case
  proof (cases "mot i")
    case True
    then show ?thesis
      unfolding fin count [OF inv P(2)]
      using snoc.IH [OF P(1)] nostop [OF inv P(2) True] by simp
  next
    case False
    then show ?thesis
      unfolding fin count [OF inv P(2)]
      using snoc.IH [OF P(1)] by (simp add: order_trans [of 0 "int (length (takeWhile mot (rev is)))"])
  qed
qed

lemma trailing_run_length:
  assumes "k \<le> length is" and "list_all mot (drop (length is - k) is)"
  shows "k \<le> length (takeWhile mot (rev is))"
proof -
  have "rev is = rev (drop (length is - k) is) @ rev (take (length is - k) is)"
    by (metis append_take_drop_id rev_append)
  moreover have "\<forall>x \<in> set (rev (drop (length is - k) is)). mot x"
    using assms(2) by (simp add: list_all_iff)
  ultimately have "takeWhile mot (rev is) =
      rev (drop (length is - k) is) @ takeWhile mot (rev (take (length is - k) is))"
    by (metis takeWhile_append2)
  then show ?thesis using assms(1) by simp
qed

lemma loop_body_steady_count:
  assumes "named s" and "steady i" and "refresh_interval c \<noteq> 0"
  shows "motion_counter (state_of (loop_body c cv s i)) =
     (if decision_of (loop_body c cv s i) = Stop then 0
      else if motion_py i then motion_counter s + 1 else motion_counter s)"
  unfolding loop_body_steady_view [OF assms] loop_body_steady_decision [OF assms]
  by (auto simp add: start_test_def stop_test_def)

lemma main_body_steady_count:
  assumes "steady i"
  shows "motion_counter (state_of (main_body a s i)) =
     (if decision_of (main_body a s i) = Stop then 0
      else if motion_2 a i then motion_counter s + 1 else motion_counter s)"
  unfolding main_body_steady_view [OF assms] main_body_steady_decision [OF assms]
  by (auto simp add: start_test_def stop_test_def)

lemma loop_body_count_since_stop:
  assumes "named s" and "motion_counter s = 0" and "list_all steady is"
    and "refresh_interval c \<noteq> 0"
  shows "motion_counter (final (loop_body c cv) s is) =
     int (length (filter motion_py (since_stop (decisions (loop_body c cv) s is) is)))"
proof (rule counts_since_stop [where I = named and P = steady])
  fix s :: "('a, 'b) main_py" and i :: "'a frame_input"
  assume h: "named s" "steady i"
  show "is_Next (loop_body c cv s i) \<and> named (state_of (loop_body c cv s i))"
    using loop_body_steady [OF h assms(4)] .
  show "motion_counter (state_of (loop_body c cv s i)) =
       (if decision_of (loop_body c cv s i) = Stop then 0
        else if motion_py i then motion_counter s + 1 else motion_counter s)"
    using loop_body_steady_count [OF h assms(4)] .
qed (use assms in simp_all)

lemma main_body_count_since_stop:
  assumes "motion_counter s = 0" and "list_all steady is"
  shows "motion_counter (final (main_body a) s is) =
     int (length (filter (motion_2 a) (since_stop (decisions (main_body a) s is) is)))"
proof (rule counts_since_stop [where I = "\<lambda>s. True" and P = steady])
  fix s :: "'a main_2" and i :: "'a frame_input"
  assume h: "steady i"
  show "is_Next (main_body a s i) \<and> True"
    using main_body_steady [OF h] by simp
  show "motion_counter (state_of (main_body a s i)) =
       (if decision_of (main_body a s i) = Stop then 0
        else if motion_2 a i then motion_counter s + 1 else motion_counter s)"
    using main_body_steady_count [OF h] .
qed (use assms in simp_all)

lemma loop_body_trailing_run:
  assumes "named s" and "0 \<le> motion_counter s" and "list_all steady is"
    and "refresh_interval c \<noteq> 0"
  shows "int (length (takeWhile motion_py (rev is))) \<le> motion_counter (final (loop_body c cv) s is)"
proof (rule counts_trailing_run [where I = named and P = steady])
  fix s :: "('a, 'b) main_py" and i :: "'a frame_input"
  assume h: "named s" "steady i"
  show "is_Next (loop_body c cv s i) \<and> named (state_of (loop_body c cv s i))"
    using loop_body_steady [OF h assms(4)] .
  show "motion_counter (state_of (loop_body c cv s i)) =
       (if decision_of (loop_body c cv s i) = Stop then 0
        else if motion_py i then motion_counter s + 1 else motion_counter s)"
    using loop_body_steady_count [OF h assms(4)] .
  show "motion_py i \<Longrightarrow> decision_of (loop_body c cv s i) \<noteq> Stop"
    by (simp add: loop_body_steady_decision [OF h assms(4)] stop_test_def)
qed (use assms in simp_all)

lemma main_body_trailing_run:
  assumes "0 \<le> motion_counter s" and "list_all steady is"
  shows "int (length (takeWhile (motion_2 a) (rev is))) \<le> motion_counter (final (main_body a) s is)"
proof (rule counts_trailing_run [where I = "\<lambda>s. True" and P = steady])
  fix s :: "'a main_2" and i :: "'a frame_input"
  assume h: "steady i"
  show "is_Next (main_body a s i) \<and> True"
    using main_body_steady [OF h] by simp
  show "motion_counter (state_of (main_body a s i)) =
       (if decision_of (main_body a s i) = Stop then 0
        else if motion_2 a i then motion_counter s + 1 else motion_counter s)"
    using main_body_steady_count [OF h] .
  show "motion_2 a i \<Longrightarrow> decision_of (main_body a s i) \<noteq> Stop"
    by (simp add: main_body_steady_decision [OF h] stop_test_def)
qed (use assms in simp_all)

lemma loop_body_final_named:
  assumes "named s" and "list_all steady is" and "refresh_interval c \<noteq> 0"
  shows "named (final (loop_body c cv) s is)"
proof -
  have "\<And>s i. named s \<Longrightarrow> steady i \<Longrightarrow>
      is_Next (loop_body c cv s i) \<and> named (state_of (loop_body c cv s i))"
    using loop_body_steady [OF _ _ assms(3)] .
  from trace_steady [of named steady "loop_body c cv", OF this assms(1,2)]
  show ?thesis by simp
qed

subsection \<open>The store of clip writers\<close>






subsection \<open>One clip at a time\<close>














subsection \<open>The full-session writer\<close>

lemma written_generic:
  fixes body :: "'s \<Rightarrow> 'i \<Rightarrow> 's outcome" and big :: "'s \<Rightarrow> 'f list"
  assumes through: "\<And>s i. \<not> is_Raise (body s i) \<Longrightarrow>
        big (state_of (body s i)) = big s @ (if rd i then [fr i] else [])"
    and raised: "\<And>s i. is_Raise (body s i) \<Longrightarrow> big (state_of (body s i)) = big s"
  shows "big (final body s is) =
     big s @ map fr (filter rd (take (length (filter (\<lambda>r. \<not> is_Raise r) (trace body s is))) is))"
proof (induction "is" arbitrary: s)
  case Nil
  show ?case by simp
next
  case (Cons i "is")
  show ?case
  proof (cases "body s i")
    case (Next d s')
    then have "big s' = big s @ (if rd i then [fr i] else [])"
      using through [of s i] by simp
    then show ?thesis using Next Cons.IH [of s'] by (simp add: final_Cons)
  next
    case (Exit d s')
    then have "big s' = big s @ (if rd i then [fr i] else [])"
      using through [of s i] by simp
    then show ?thesis using Exit by (simp add: final_Cons)
  next
    case (Raise e s')
    then have "big s' = big s" using raised [of s i] by simp
    then show ?thesis using Raise by (simp add: final_Cons)
  qed
qed

lemma loop_body_big:
  assumes "refresh_interval c \<noteq> 0"
  shows "\<not> is_Raise (loop_body c cv s i) \<Longrightarrow>
       written (big_clip_out (state_of (loop_body c cv s i))) =
       written (big_clip_out s) @ (if ret i then [frame i] else [])"
    and "is_Raise (loop_body c cv s i) \<Longrightarrow>
       written (big_clip_out (state_of (loop_body c cv s i))) = written (big_clip_out s)"
proof -
  have b: "big_clip_out (state_of (motion_block c (s\<lparr>frame_count := frame_count s + 1\<rparr>) i)) =
      big_clip_out s"
    by (simp add: motion_block_fields)
  show "written (big_clip_out (state_of (loop_body c cv s i))) =
       written (big_clip_out s) @ (if ret i then [frame i] else [])"
    if h: "\<not> is_Raise (loop_body c cv s i)"
  proof (cases "ret i")
    case True
    show ?thesis
    proof (rule loop_body_cases [OF True, of c s cv])
      fix d s1
      assume m: "motion_block c (s\<lparr>frame_count := frame_count s + 1\<rparr>) i = Next d s1"
        and l: "loop_body c cv s i = record_frame c cv d s1 i"
      from b m have "big_clip_out s1 = big_clip_out s" by simp
      then show ?thesis using True by (simp add: l record_frame_fields write_frame_def)
    next
      fix e s1
      assume "loop_body c cv s i = Raise e s1"
      then show ?thesis using h by simp
    qed
  next
    case False
    then show ?thesis by (simp add: loop_body_no_frame print_def)
  qed
  show "written (big_clip_out (state_of (loop_body c cv s i))) = written (big_clip_out s)"
    if h: "is_Raise (loop_body c cv s i)"
  proof -
    from h have True: "ret i" by (simp add: loop_body_outcome)
    show ?thesis
    proof (rule loop_body_cases [OF True, of c s cv])
      fix d s1
      assume "loop_body c cv s i = record_frame c cv d s1 i"
      then show ?thesis using h assms by (simp add: record_frame_outcome)
    next
      fix e s1
      assume m: "motion_block c (s\<lparr>frame_count := frame_count s + 1\<rparr>) i = Raise e s1"
        and l: "loop_body c cv s i = Raise e s1"
      from b m have "big_clip_out s1 = big_clip_out s" by simp
      then show ?thesis by (simp add: l)
    qed
  qed
qed

lemma main_body_big:
  shows "\<not> is_Raise (main_body a s i) \<Longrightarrow>
       written (big_clip_out (state_of (main_body a s i))) =
       written (big_clip_out s) @ (if ret i then [frame i] else [])"
    and "is_Raise (main_body a s i) \<Longrightarrow>
       written (big_clip_out (state_of (main_body a s i))) = written (big_clip_out s)"
proof -
  have b: "big_clip_out (state_of (motion_block_2 a (s\<lparr>frame_count := frame_count s + 1\<rparr>) i)) =
      big_clip_out s"
    by (simp add: motion_block_2_fields)
  show "written (big_clip_out (state_of (main_body a s i))) =
       written (big_clip_out s) @ (if ret i then [frame i] else [])"
    if h: "\<not> is_Raise (main_body a s i)"
  proof (cases "ret i")
    case True
    show ?thesis
    proof (rule main_body_cases [OF True, of a s])
      fix d s1
      assume m: "motion_block_2 a (s\<lparr>frame_count := frame_count s + 1\<rparr>) i = Next d s1"
        and l: "main_body a s i = record_frame_2 d s1 i"
      from b m have "big_clip_out s1 = big_clip_out s" by simp
      then show ?thesis using True by (simp add: l record_frame_2_fields write_frame_def)
    next
      fix e s1
      assume "main_body a s i = Raise e s1"
      then show ?thesis using h by simp
    qed
  next
    case False
    then show ?thesis by (simp add: main_body_no_frame print_def)
  qed
  show "written (big_clip_out (state_of (main_body a s i))) = written (big_clip_out s)"
    if h: "is_Raise (main_body a s i)"
  proof -
    from h have True: "ret i" by (simp add: main_body_outcome)
    show ?thesis
    proof (rule main_body_cases [OF True, of a s])
      fix d s1
      assume "main_body a s i = record_frame_2 d s1 i"
      then show ?thesis using h by (simp add: record_frame_2_outcome)
    next
      fix e s1
      assume m: "motion_block_2 a (s\<lparr>frame_count := frame_count s + 1\<rparr>) i = Raise e s1"
        and l: "main_body a s i = Raise e s1"
      from b m have "big_clip_out s1 = big_clip_out s" by simp
      then show ?thesis by (simp add: l)
    qed
  qed
qed

lemma startup_big: "startup cv b = Inr s0 \<Longrightarrow> written (big_clip_out s0) = []"
  by (auto simp add: startup_def VideoWriter_def split: if_splits)

lemma main_startup_big: "main_startup a b = Inr s0 \<Longrightarrow> written (big_clip_out s0) = []"
  by (auto simp add: main_startup_def create_video_writer_def VideoWriter_def Let_def
      split: if_splits)

subsection \<open>The background image\<close>






subsection \<open>Clip numbers and names\<close>

lemma path_on_writer_write: "map path (on_writer h (write_frame f) ws) = map path ws"
  by (simp add: on_writer_def map_update write_frame_def list_update_same_conv)

lemma path_on_writer_release: "map path (on_writer h release ws) = map path ws"
  by (simp add: on_writer_def map_update release_def list_update_same_conv)

lemma path_write_clip: "map path (writers (write_clip f s)) = map path (writers s)"
  by (simp add: write_clip_def path_on_writer_write split: option.split)

lemma motion_block_paths:
  "map path (writers (state_of (motion_block c s i))) =
     map path (writers s) @
       (if start_test (MOTION_THRESHOLD c) (motion_py i) s \<and> sink_open i \<noteq> OpenRaises
        then [clip_name_py (clip_number s + 1) i] else [])"
  by (auto simp add: block_defs clip_name_py_def VideoWriter_def path_on_writer_release
      split: option.split)

lemma motion_block_2_paths:
  "map path (writers (state_of (motion_block_2 a s i))) =
     map path (writers s) @
       (if start_test (motion_threshold a) (motion_2 a i) s \<and> sink_open i \<noteq> OpenRaises
        then [clip_path_2 (clip_number s + 1) i] else [])"
  by (auto simp add: block_2_defs clip_path_2_def VideoWriter_def path_on_writer_release
      split: option.split)

lemma loop_body_paths:
  "map path (writers (state_of (loop_body c cv s i))) =
     map path (writers s) @
       (if ret i \<and> start_test (MOTION_THRESHOLD c) (motion_py i) s \<and> sink_open i \<noteq> OpenRaises
        then [clip_name_py (clip_number s + 1) i] else [])"
proof (cases "ret i")
  case True
  have m: "map path (writers (state_of (motion_block c (s\<lparr>frame_count := frame_count s + 1\<rparr>) i))) =
     map path (writers s) @
       (if start_test (MOTION_THRESHOLD c) (motion_py i) s \<and> sink_open i \<noteq> OpenRaises
        then [clip_name_py (clip_number s + 1) i] else [])"
    by (simp add: motion_block_paths)
  show ?thesis
  proof (rule loop_body_cases [OF True, of c s cv])
    fix d s1
    assume "motion_block c (s\<lparr>frame_count := frame_count s + 1\<rparr>) i = Next d s1"
      and l: "loop_body c cv s i = record_frame c cv d s1 i"
    then show ?thesis using m True by (simp add: record_frame_fields path_write_clip)
  next
    fix e s1
    assume "motion_block c (s\<lparr>frame_count := frame_count s + 1\<rparr>) i = Raise e s1"
      and l: "loop_body c cv s i = Raise e s1"
    then show ?thesis using m True by simp
  qed
next
  case False
  then show ?thesis by (simp add: loop_body_no_frame print_def)
qed

lemma main_body_paths:
  "map path (writers (state_of (main_body a s i))) =
     map path (writers s) @
       (if ret i \<and> start_test (motion_threshold a) (motion_2 a i) s \<and> sink_open i \<noteq> OpenRaises
        then [clip_path_2 (clip_number s + 1) i] else [])"
proof (cases "ret i")
  case True
  have m: "map path (writers (state_of (motion_block_2 a (s\<lparr>frame_count := frame_count s + 1\<rparr>) i))) =
     map path (writers s) @
       (if start_test (motion_threshold a) (motion_2 a i) s \<and> sink_open i \<noteq> OpenRaises
        then [clip_path_2 (clip_number s + 1) i] else [])"
    by (simp add: motion_block_2_paths)
  show ?thesis
  proof (rule main_body_cases [OF True, of a s])
    fix d s1
    assume "motion_block_2 a (s\<lparr>frame_count := frame_count s + 1\<rparr>) i = Next d s1"
      and l: "main_body a s i = record_frame_2 d s1 i"
    then show ?thesis using m True by (simp add: record_frame_2_fields path_write_clip)
  next
    fix e s1
    assume "motion_block_2 a (s\<lparr>frame_count := frame_count s + 1\<rparr>) i = Raise e s1"
      and l: "main_body a s i = Raise e s1"
    then show ?thesis using m True by simp
  qed
next
  case False
  then show ?thesis by (simp add: main_body_no_frame print_def)
qed

lemma loop_body_Start_iff:
  "refresh_interval c \<noteq> 0 \<Longrightarrow>
   decision_of (loop_body c cv s i) = Start \<longleftrightarrow>
     ret i \<and> start_test (MOTION_THRESHOLD c) (motion_py i) s \<and> sink_open i \<noteq> OpenRaises"
  by (simp add: loop_body_outcome motion_block_outcome)

lemma main_body_Start_iff:
  "decision_of (main_body a s i) = Start \<longleftrightarrow>
     ret i \<and> start_test (motion_threshold a) (motion_2 a i) s \<and> sink_open i \<noteq> OpenRaises"
  by (simp add: main_body_outcome motion_block_2_outcome)

lemma loop_body_clip_number:
  "refresh_interval c \<noteq> 0 \<Longrightarrow> \<not> is_Raise (loop_body c cv s i) \<Longrightarrow>
   clip_number (state_of (loop_body c cv s i)) =
     (if decision_of (loop_body c cv s i) = Start then clip_number s + 1 else clip_number s)"
proof (cases "ret i")
  case True
  assume "refresh_interval c \<noteq> 0" "\<not> is_Raise (loop_body c cv s i)"
  then show ?thesis
    by (auto simp add: loop_body_fields [OF True] loop_body_Start_iff True loop_body_outcome
        motion_block_outcome)
next
  case False
  then show ?thesis by (simp add: loop_body_no_frame print_def)
qed

lemma main_body_clip_number:
  "\<not> is_Raise (main_body a s i) \<Longrightarrow>
   clip_number (state_of (main_body a s i)) =
     (if decision_of (main_body a s i) = Start then clip_number s + 1 else clip_number s)"
proof (cases "ret i")
  case True
  assume "\<not> is_Raise (main_body a s i)"
  then show ?thesis
    by (auto simp add: main_body_fields [OF True] main_body_Start_iff True main_body_outcome
        motion_block_2_outcome)
next
  case False
  then show ?thesis by (simp add: main_body_no_frame print_def)
qed

lemma start_inputs_Nil [simp]: "start_inputs [] is = []"
  by (simp add: start_inputs_def)

lemma start_inputs_Cons:
  "start_inputs (r # tr) (i # is) =
     (if decision_of r = Start then i # start_inputs tr is else start_inputs tr is)"
  by (simp add: start_inputs_def)

lemma names_generic:
  fixes body :: "'s \<Rightarrow> 'i \<Rightarrow> 's outcome" and num :: "'s \<Rightarrow> int" and paths :: "'s \<Rightarrow> 'a list"
  assumes grow: "\<And>s i. paths (state_of (body s i)) =
        paths s @ (if decision_of (body s i) = Start then [nm (num s + 1) i] else [])"
    and count: "\<And>s i. \<not> is_Raise (body s i) \<Longrightarrow> num (state_of (body s i)) =
        (if decision_of (body s i) = Start then num s + 1 else num s)"
  shows "paths (final body s is) =
           paths s @ numbered nm (num s + 1) (start_inputs (trace body s is) is) \<and>
         (list_all (\<lambda>r. \<not> is_Raise r) (trace body s is) \<longrightarrow>
            num (final body s is) = num s + int (length (start_inputs (trace body s is) is)))"
proof (induction "is" arbitrary: s)
  case Nil
  show ?case by simp
next
  case (Cons i "is")
  show ?case
  proof (cases "body s i")
    case (Next d s')
    from grow [of s i] count [of s i] Next
    have "paths s' = paths s @ (if d = Start then [nm (num s + 1) i] else [])"
      and "num s' = (if d = Start then num s + 1 else num s)"
      by simp_all
    then show ?thesis using Next Cons.IH [of s']
      by (simp add: final_Cons start_inputs_Cons)
  next
    case (Exit d s')
    from grow [of s i] count [of s i] Exit
    have "paths s' = paths s @ (if d = Start then [nm (num s + 1) i] else [])"
      and "num s' = (if d = Start then num s + 1 else num s)"
      by simp_all
    then show ?thesis using Exit by (simp add: final_Cons start_inputs_Cons)
  next
    case (Raise e s')
    from grow [of s i] Raise have "paths s' = paths s" by simp
    then show ?thesis using Raise by (simp add: final_Cons start_inputs_Cons)
  qed
qed

lemma startup_clips: "startup cv b = Inr s0 \<Longrightarrow> clip_number s0 = 1 \<and> writers s0 = []"
  by (auto simp add: startup_def split: if_splits)

lemma main_startup_clips: "main_startup a b = Inr s0 \<Longrightarrow> clip_number s0 = 1 \<and> writers s0 = []"
  by (auto simp add: main_startup_def Let_def split: if_splits)

lemma fmt_03d_examples: "fmt_03d 2 = ''002''" "fmt_03d 3 = ''003''" "fmt_03d 4 = ''004''"
  "fmt_03d 12 = ''012''" "fmt_03d 1000 = ''1000''"
  by (simp_all add: fmt_03d_def zero_pad_def dec_digits.simps numeral_2_eq_2)

lemma digit_cases:
  assumes "m < (10::nat)"
  obtains "m = 0" | "m = 1" | "m = 2" | "m = 3" | "m = 4" | "m = 5" | "m = 6" | "m = 7"
    | "m = 8" | "m = 9"
proof -
  have "m = 0 \<or> m = 1 \<or> m = 2 \<or> m = 3 \<or> m = 4 \<or> m = 5 \<or> m = 6 \<or> m = 7 \<or> m = 8 \<or> m = 9"
    using assms by arith
  then show ?thesis using that by blast
qed

lemma digit_zero: "m < 10 \<Longrightarrow> (''0123456789'' ! m = CHR ''0'') = (m = 0)"
  by (erule digit_cases) simp_all

lemma digit_one: "m < 10 \<Longrightarrow> (''0123456789'' ! m = CHR ''1'') = (m = 1)"
  by (erule digit_cases) simp_all

lemma dec_digits_nonempty: "dec_digits m \<noteq> []"
  by (subst dec_digits.simps) simp

lemma dec_digits_hd: "0 < m \<Longrightarrow> hd (dec_digits m) \<noteq> CHR ''0''"
proof (induction m rule: dec_digits.induct)
  case (1 n)
  show ?case
  proof (cases "n < 10")
    case True
    have d: "''0123456789'' ! n \<noteq> CHR ''0''"
      using digit_zero [OF True] "1.prems" by blast
    have "dec_digits n = [''0123456789'' ! n]"
      using True by (subst dec_digits.simps) (simp only: if_True)
    then show ?thesis using d by (metis list.sel(1))
  next
    case False
    then have "0 < n div 10" by simp
    from "1.IH" [OF False this] show ?thesis
      using False by (subst dec_digits.simps) (simp add: dec_digits_nonempty)
  qed
qed

lemma dec_digits_single: "dec_digits m = [x] \<Longrightarrow> m < 10 \<and> x = ''0123456789'' ! m"
  by (subst (asm) dec_digits.simps) (simp add: dec_digits_nonempty split: if_splits)

lemma zero_pad_001:
  assumes "zero_pad 3 ds = ''001''"
  shows "ds = ''1'' \<or> (ds \<noteq> [] \<and> hd ds = CHR ''0'') \<or> ds = []"
proof -
  consider "length ds = 0" | "length ds = 1" | "length ds = 2" | "3 \<le> length ds" by linarith
  then show ?thesis
  proof cases
    case 1 then show ?thesis by simp
  next
    case 2
    then have "replicate (3 - length ds) CHR ''0'' = ''00''" by (simp add: numeral_3_eq_3)
    then show ?thesis using assms by (simp add: zero_pad_def)
  next
    case 3
    then have "replicate (3 - length ds) CHR ''0'' = ''0''" by (simp add: numeral_3_eq_3)
    then have "ds = ''01''" using assms by (simp add: zero_pad_def)
    then show ?thesis by simp
  next
    case 4
    then have "ds = ''001''" using assms by (simp add: zero_pad_def)
    then show ?thesis by simp
  qed
qed

lemma fmt_03d_not_001: "2 \<le> n \<Longrightarrow> fmt_03d n \<noteq> ''001''"
proof
  assume n: "2 \<le> n" and e: "fmt_03d n = ''001''"
  then have z: "zero_pad 3 (dec_digits (nat n)) = ''001''" by (simp add: fmt_03d_def)
  have pos: "0 < nat n" using n by simp
  from zero_pad_001 [OF z] dec_digits_nonempty [of "nat n"] dec_digits_hd [OF pos]
  have "dec_digits (nat n) = ''1''" by blast
  from dec_digits_single [OF this] have "nat n < 10" "''0123456789'' ! nat n = CHR ''1''"
    by simp_all
  then have "nat n = 1" by (simp add: digit_one)
  then show False using n by simp
qed

subsection \<open>Startup of main_2.py\<close>

lemma validate_roi_invariant_spec:
  "1 \<le> fw \<Longrightarrow> 1 \<le> fh \<Longrightarrow> roi_invariant_spec (validate_roi r fw fh) fw fh"
  by (cases r) (auto simp add: roi_invariant_spec_def validate_roi_def Let_def)

lemma validate_roi_keeps:
  "roi_invariant_spec r fw fh \<Longrightarrow> validate_roi r fw fh = r"
  by (cases r) (auto simp add: roi_invariant_spec_def validate_roi_def Let_def)

lemma main_startup_cases:
  "main_startup a b =
     (if \<not> camera_opened b then Inl CameraNotOpened
      else if big_open b = OpenRaises then Inl OpenError
      else Inr (projr (main_startup a b)))"
  by (simp add: main_startup_def Let_def)

lemma main_startup_started:
  assumes "camera_opened b" and "big_open b \<noteq> OpenRaises"
  shows "roi_coords (projr (main_startup a b)) = validate_roi (roi a) width height"
    and "view (projr (main_startup a b)) = (False, 0, 0)"
    and "is_opened (big_clip_out (projr (main_startup a b))) = (big_open b = Opened)"
  using assms
  by (simp_all add: main_startup_def Let_def view_def create_video_writer_def VideoWriter_def)

subsection \<open>A clip writer that cannot be opened\<close>

lemma trace_stops: "\<not> is_Next (body s i) \<Longrightarrow> trace body s (i # is) = [body s i]"
  by (cases "body s i") simp_all

lemma motion_block_start:
  assumes "start_test (MOTION_THRESHOLD c) (motion_py i) s" and "sink_open i \<noteq> OpenRaises"
  shows "\<exists>s1. motion_block c s i = Next Start s1 \<and> motion_detected s1 \<and>
           out s1 = Some (length (writers s)) \<and>
           writers s1 = writers s @
             [VideoWriter (clip_name_py (clip_number s + 1) i) (sink_open i)]"
  using assms by (simp add: block_defs clip_name_py_def)

lemma motion_block_2_start:
  assumes "start_test (motion_threshold a) (motion_2 a i) s" and "sink_open i \<noteq> OpenRaises"
  shows "\<exists>s1. motion_block_2 a s i = Next Start s1 \<and> motion_detected s1 \<and>
           out s1 = Some (length (writers s)) \<and>
           writers s1 = writers s @
             [VideoWriter (clip_path_2 (clip_number s + 1) i) (sink_open i)]"
  using assms by (simp add: block_2_defs clip_path_2_def)

lemma write_clip_new:
  "motion_detected s1 \<Longrightarrow> out s1 = Some (length ws) \<Longrightarrow> writers s1 = ws @ [w] \<Longrightarrow>
   writers (write_clip f s1) = ws @ [write_frame f w]"
  by (simp add: write_clip_def on_writer_def)

lemma loop_body_start_state:
  assumes "ret i" and "start_test (MOTION_THRESHOLD c) (motion_py i) s"
    and "sink_open i \<noteq> OpenRaises"
  shows "out (state_of (loop_body c cv s i)) = Some (length (writers s))"
    and "writers (state_of (loop_body c cv s i)) = writers s @
       [write_frame (frame i) (VideoWriter (clip_name_py (clip_number s + 1) i) (sink_open i))]"
proof -
  have "start_test (MOTION_THRESHOLD c) (motion_py i) (s\<lparr>frame_count := frame_count s + 1\<rparr>)"
    using assms(2) by simp
  from motion_block_start [OF this assms(3)] obtain s1 where
    m: "motion_block c (s\<lparr>frame_count := frame_count s + 1\<rparr>) i = Next Start s1"
    and s1: "motion_detected s1" "out s1 = Some (length (writers s))"
      "writers s1 = writers s @ [VideoWriter (clip_name_py (clip_number s + 1) i) (sink_open i)]"
    by auto
  have l: "loop_body c cv s i = record_frame c cv Start s1 i"
    using m assms(1) by (simp add: loop_body_frame)
  show "out (state_of (loop_body c cv s i)) = Some (length (writers s))"
    by (simp add: l record_frame_fields s1)
  show "writers (state_of (loop_body c cv s i)) = writers s @
       [write_frame (frame i) (VideoWriter (clip_name_py (clip_number s + 1) i) (sink_open i))]"
    by (simp add: l record_frame_fields write_clip_new [OF s1])
qed

lemma main_body_start_state:
  assumes "ret i" and "start_test (motion_threshold a) (motion_2 a i) s"
    and "sink_open i \<noteq> OpenRaises"
  shows "out (state_of (main_body a s i)) = Some (length (writers s))"
    and "writers (state_of (main_body a s i)) = writers s @
       [write_frame (frame i) (VideoWriter (clip_path_2 (clip_number s + 1) i) (sink_open i))]"
proof -
  have "start_test (motion_threshold a) (motion_2 a i) (s\<lparr>frame_count := frame_count s + 1\<rparr>)"
    using assms(2) by simp
  from motion_block_2_start [OF this assms(3)] obtain s1 where
    m: "motion_block_2 a (s\<lparr>frame_count := frame_count s + 1\<rparr>) i = Next Start s1"
    and s1: "motion_detected s1" "out s1 = Some (length (writers s))"
      "writers s1 = writers s @ [VideoWriter (clip_path_2 (clip_number s + 1) i) (sink_open i)]"
    by auto
  have l: "main_body a s i = record_frame_2 Start s1 i"
    using m assms(1) by (simp add: main_body_frame)
  show "out (state_of (main_body a s i)) = Some (length (writers s))"
    by (simp add: l record_frame_2_fields s1)
  show "writers (state_of (main_body a s i)) = writers s @
       [write_frame (frame i) (VideoWriter (clip_path_2 (clip_number s + 1) i) (sink_open i))]"
    by (simp add: l record_frame_2_fields write_clip_new [OF s1])
qed

lemma loop_body_while_recording:
  assumes "motion_detected s"
  shows "decision_of (loop_body c cv s i) \<noteq> Start"
    and "clip_number (state_of (loop_body c cv s i)) = clip_number s"
proof -
  show "decision_of (loop_body c cv s i) \<noteq> Start"
    using assms by (simp add: loop_body_outcome motion_block_outcome start_test_def)
  show "clip_number (state_of (loop_body c cv s i)) = clip_number s"
  proof (cases "ret i")
    case True
    then show ?thesis using assms by (simp add: loop_body_fields start_test_def)
  next
    case False
    then show ?thesis by (simp add: loop_body_no_frame print_def)
  qed
qed

lemma main_body_while_recording:
  assumes "motion_detected s"
  shows "decision_of (main_body a s i) \<noteq> Start"
    and "clip_number (state_of (main_body a s i)) = clip_number s"
proof -
  show "decision_of (main_body a s i) \<noteq> Start"
    using assms by (simp add: main_body_outcome motion_block_2_outcome start_test_def)
  show "clip_number (state_of (main_body a s i)) = clip_number s"
  proof (cases "ret i")
    case True
    then show ?thesis using assms by (simp add: main_body_fields start_test_def)
  next
    case False
    then show ?thesis by (simp add: main_body_no_frame print_def)
  qed
qed

lemma loop_body_failed_open:
  assumes "ret i" and "start_test (MOTION_THRESHOLD c) (motion_py i) s"
    and "refresh_interval c \<noteq> 0"
  shows "sink_open i = NotOpened \<longrightarrow>
       decision_of (loop_body c cv s i) = Start \<and> \<not> is_Raise (loop_body c cv s i) \<and>
       motion_detected (state_of (loop_body c cv s i)) \<and>
       clip_number (state_of (loop_body c cv s i)) = clip_number s + 1 \<and>
       out (state_of (loop_body c cv s i)) = Some (length (writers s)) \<and>
       \<not> is_opened (writers (state_of (loop_body c cv s i)) ! length (writers s))"
    and "sink_open i = OpenRaises \<longrightarrow>
       is_Raise (loop_body c cv s i) \<and> \<not> motion_detected (state_of (loop_body c cv s i)) \<and>
       clip_number (state_of (loop_body c cv s i)) = clip_number s + 1 \<and>
       trace (loop_body c cv) s (i # is) = [loop_body c cv s i]"
proof -
  have m: "motion_py i" "\<not> motion_detected s" using assms(2) by (simp_all add: start_test_def)
  show "sink_open i = NotOpened \<longrightarrow>
       decision_of (loop_body c cv s i) = Start \<and> \<not> is_Raise (loop_body c cv s i) \<and>
       motion_detected (state_of (loop_body c cv s i)) \<and>
       clip_number (state_of (loop_body c cv s i)) = clip_number s + 1 \<and>
       out (state_of (loop_body c cv s i)) = Some (length (writers s)) \<and>
       \<not> is_opened (writers (state_of (loop_body c cv s i)) ! length (writers s))"
  proof
    assume n: "sink_open i = NotOpened"
    then have o: "sink_open i \<noteq> OpenRaises" by simp
    show "decision_of (loop_body c cv s i) = Start \<and> \<not> is_Raise (loop_body c cv s i) \<and>
       motion_detected (state_of (loop_body c cv s i)) \<and>
       clip_number (state_of (loop_body c cv s i)) = clip_number s + 1 \<and>
       out (state_of (loop_body c cv s i)) = Some (length (writers s)) \<and>
       \<not> is_opened (writers (state_of (loop_body c cv s i)) ! length (writers s))"
      using assms m o n
      by (simp add: loop_body_outcome motion_block_outcome loop_body_fields stop_test_def
          loop_body_start_state [OF assms(1,2) o] write_frame_def VideoWriter_def)
  qed
  show "sink_open i = OpenRaises \<longrightarrow>
       is_Raise (loop_body c cv s i) \<and> \<not> motion_detected (state_of (loop_body c cv s i)) \<and>
       clip_number (state_of (loop_body c cv s i)) = clip_number s + 1 \<and>
       trace (loop_body c cv) s (i # is) = [loop_body c cv s i]"
  proof
    assume n: "sink_open i = OpenRaises"
    have r: "is_Raise (loop_body c cv s i)"
      using assms n by (simp add: loop_body_outcome motion_block_outcome)
    then have "\<not> is_Next (loop_body c cv s i)" by (cases "loop_body c cv s i") simp_all
    from trace_stops [of "loop_body c cv" s i "is", OF this] r assms m n
    show "is_Raise (loop_body c cv s i) \<and> \<not> motion_detected (state_of (loop_body c cv s i)) \<and>
       clip_number (state_of (loop_body c cv s i)) = clip_number s + 1 \<and>
       trace (loop_body c cv) s (i # is) = [loop_body c cv s i]"
      by (simp add: loop_body_fields)
  qed
qed

lemma main_body_failed_open:
  assumes "ret i" and "start_test (motion_threshold a) (motion_2 a i) s"
  shows "sink_open i = NotOpened \<longrightarrow>
       decision_of (main_body a s i) = Start \<and> \<not> is_Raise (main_body a s i) \<and>
       motion_detected (state_of (main_body a s i)) \<and>
       clip_number (state_of (main_body a s i)) = clip_number s + 1 \<and>
       out (state_of (main_body a s i)) = Some (length (writers s)) \<and>
       \<not> is_opened (writers (state_of (main_body a s i)) ! length (writers s))"
    and "sink_open i = OpenRaises \<longrightarrow>
       is_Raise (main_body a s i) \<and> \<not> motion_detected (state_of (main_body a s i)) \<and>
       clip_number (state_of (main_body a s i)) = clip_number s + 1 \<and>
       trace (main_body a) s (i # is) = [main_body a s i]"
proof -
  have m: "motion_2 a i" "\<not> motion_detected s" using assms(2) by (simp_all add: start_test_def)
  show "sink_open i = NotOpened \<longrightarrow>
       decision_of (main_body a s i) = Start \<and> \<not> is_Raise (main_body a s i) \<and>
       motion_detected (state_of (main_body a s i)) \<and>
       clip_number (state_of (main_body a s i)) = clip_number s + 1 \<and>
       out (state_of (main_body a s i)) = Some (length (writers s)) \<and>
       \<not> is_opened (writers (state_of (main_body a s i)) ! length (writers s))"
  proof
    assume n: "sink_open i = NotOpened"
    then have o: "sink_open i \<noteq> OpenRaises" by simp
    show "decision_of (main_body a s i) = Start \<and> \<not> is_Raise (main_body a s i) \<and>
       motion_detected (state_of (main_body a s i)) \<and>
       clip_number (state_of (main_body a s i)) = clip_number s + 1 \<and>
       out (state_of (main_body a s i)) = Some (length (writers s)) \<and>
       \<not> is_opened (writers (state_of (main_body a s i)) ! length (writers s))"
      using assms m o n
      by (simp add: main_body_outcome motion_block_2_outcome main_body_fields stop_test_def
          main_body_start_state [OF assms(1,2) o] write_frame_def VideoWriter_def)
  qed
  show "sink_open i = OpenRaises \<longrightarrow>
       is_Raise (main_body a s i) \<and> \<not> motion_detected (state_of (main_body a s i)) \<and>
       clip_number (state_of (main_body a s i)) = clip_number s + 1 \<and>
       trace (main_body a) s (i # is) = [main_body a s i]"
  proof
    assume n: "sink_open i = OpenRaises"
    have r: "is_Raise (main_body a s i)"
      using assms n by (simp add: main_body_outcome motion_block_2_outcome)
    then have "\<not> is_Next (main_body a s i)" by (cases "main_body a s i") simp_all
    from trace_stops [of "main_body a" s i "is", OF this] r assms m n
    show "is_Raise (main_body a s i) \<and> \<not> motion_detected (state_of (main_body a s i)) \<and>
       clip_number (state_of (main_body a s i)) = clip_number s + 1 \<and>
       trace (main_body a) s (i # is) = [main_body a s i]"
      by (simp add: main_body_fields)
  qed
qed

section \<open>The claims\<close>

text \<open>
  C6. In both scripts an iteration takes the start branch only from a state in which
  \<^verbatim>\<open>motion_detected\<close> is false, and the stop branch only from a state in which it is true:
  whatever the state and the inputs of the iteration, there is no start while recording
  and no stop while idle.
\<close>

theorem no_double_start_no_double_stop:
  "(decision_of (loop_body c cv s i) = Start \<longrightarrow> \<not> motion_detected s) \<and>
   (decision_of (loop_body c cv s i) = Stop \<longrightarrow> motion_detected s) \<and>
   (decision_of (main_body a t j) = Start \<longrightarrow> \<not> motion_detected t) \<and>
   (decision_of (main_body a t j) = Stop \<longrightarrow> motion_detected t)"
proof (intro conjI impI)
  assume "decision_of (loop_body c cv s i) = Start"
  then have "decision_of (motion_block c (s\<lparr>frame_count := frame_count s + 1\<rparr>) i) = Start"
    using loop_body_decision [of c cv s i] by simp
  then show "\<not> motion_detected s" using motion_block_Start by fastforce
next
  assume "decision_of (loop_body c cv s i) = Stop"
  then have "decision_of (motion_block c (s\<lparr>frame_count := frame_count s + 1\<rparr>) i) = Stop"
    using loop_body_decision [of c cv s i] by simp
  then show "motion_detected s" using motion_block_Stop by fastforce
next
  assume "decision_of (main_body a t j) = Start"
  then have "decision_of (motion_block_2 a (t\<lparr>frame_count := frame_count t + 1\<rparr>) j) = Start"
    using main_body_decision [of a t j] by simp
  then show "\<not> motion_detected t" using motion_block_2_Start by fastforce
next
  assume "decision_of (main_body a t j) = Stop"
  then have "decision_of (motion_block_2 a (t\<lparr>frame_count := frame_count t + 1\<rparr>) j) = Stop"
    using main_body_decision [of a t j] by simp
  then show "motion_detected t" using motion_block_2_Stop by fastforce
qed

theorem no_double_start_no_double_stop_witness:
  "decision_of (loop_body (ex_cfg\<lparr>MOTION_THRESHOLD := 0\<rparr>) ex_cv ex_idle (ex_frame True 1)) = Start \<and>
   \<not> motion_detected ex_idle \<and>
   decision_of (main_body (ex_args\<lparr>motion_threshold := 0\<rparr>) ex_idle_2 (ex_frame True 1)) = Start \<and>
   \<not> motion_detected ex_idle_2 \<and>
   decision_of (loop_body (ex_cfg\<lparr>NO_MOTION_THRESHOLD := 0\<rparr>) ex_cv
     (ex_idle\<lparr>motion_detected := True, out := Some 0, filename := Some ''clip'',
        writers := [VideoWriter ''clip'' Opened]\<rparr>) (ex_frame False 2)) = Stop \<and>
   motion_detected (ex_idle\<lparr>motion_detected := True, out := Some 0, filename := Some ''clip'',
        writers := [VideoWriter ''clip'' Opened]\<rparr>) \<and>
   decision_of (main_body (ex_args\<lparr>no_motion_threshold := 0\<rparr>)
     (ex_idle_2\<lparr>motion_detected := True, out := Some 0,
        writers := [VideoWriter ''clip'' Opened]\<rparr>) (ex_frame False 2)) = Stop \<and>
   motion_detected (ex_idle_2\<lparr>motion_detected := True, out := Some 0,
        writers := [VideoWriter ''clip'' Opened]\<rparr>)"
  using no_double_start_no_double_stop
    [of "ex_cfg\<lparr>MOTION_THRESHOLD := 0\<rparr>" ex_cv ex_idle "ex_frame True 1"
        "ex_args\<lparr>motion_threshold := 0\<rparr>" ex_idle_2 "ex_frame True 1"]
    no_double_start_no_double_stop
    [of "ex_cfg\<lparr>NO_MOTION_THRESHOLD := 0\<rparr>" ex_cv
        "ex_idle\<lparr>motion_detected := True, out := Some 0, filename := Some ''clip'',
           writers := [VideoWriter ''clip'' Opened]\<rparr>" "ex_frame False 2"
        "ex_args\<lparr>no_motion_threshold := 0\<rparr>"
        "ex_idle_2\<lparr>motion_detected := True, out := Some 0,
           writers := [VideoWriter ''clip'' Opened]\<rparr>" "ex_frame False 2"]
  by (simp add: ex_defs step_defs)

text \<open>
  C2, as amended. On a frame with motion both scripts add one to \<^verbatim>\<open>motion_counter\<close> and set
  \<^verbatim>\<open>no_motion_counter\<close> to 0. On a frame without motion they add one to
  \<^verbatim>\<open>no_motion_counter\<close> and leave \<^verbatim>\<open>motion_counter\<close> as it is, unless the stop test holds on
  that frame, in which case it is set to 0.
\<close>

theorem counters_after_a_frame:
  assumes "ret i" and "named s" and "ret j"
  shows "(motion_py i \<longrightarrow>
            motion_counter (state_of (loop_body c cv s i)) = motion_counter s + 1 \<and>
            no_motion_counter (state_of (loop_body c cv s i)) = 0) \<and>
         (\<not> motion_py i \<longrightarrow>
            no_motion_counter (state_of (loop_body c cv s i)) = no_motion_counter s + 1 \<and>
            motion_counter (state_of (loop_body c cv s i)) =
              (if stop_test (NO_MOTION_THRESHOLD c) False s then 0 else motion_counter s)) \<and>
         (motion_2 a j \<longrightarrow>
            motion_counter (state_of (main_body a t j)) = motion_counter t + 1 \<and>
            no_motion_counter (state_of (main_body a t j)) = 0) \<and>
         (\<not> motion_2 a j \<longrightarrow>
            no_motion_counter (state_of (main_body a t j)) = no_motion_counter t + 1 \<and>
            motion_counter (state_of (main_body a t j)) =
              (if stop_test (no_motion_threshold a) False t then 0 else motion_counter t))"
proof -
  have "stop_test (NO_MOTION_THRESHOLD c) False s \<Longrightarrow> filename s \<noteq> None"
    using assms(2) by (simp add: named_def stop_test_def)
  then show ?thesis
    by (auto simp add: loop_body_fields [OF assms(1)] main_body_fields [OF assms(3)])
qed

theorem counters_after_a_frame_witness:
  "ret (ex_frame True 1) \<and> named ex_idle \<and> motion_py (ex_frame True 1) \<and>
   motion_counter (state_of (loop_body ex_cfg ex_cv ex_idle (ex_frame True 1))) = 1 \<and>
   no_motion_counter (state_of (loop_body ex_cfg ex_cv ex_idle (ex_frame True 1))) = 0 \<and>
   motion_2 ex_args (ex_frame True 1) \<and>
   motion_counter (state_of (main_body ex_args ex_idle_2 (ex_frame True 1))) = 1 \<and>
   no_motion_counter (state_of (main_body ex_args ex_idle_2 (ex_frame True 1))) = 0 \<and>
   ret (ex_frame False 2) \<and> \<not> motion_py (ex_frame False 2) \<and>
   no_motion_counter (state_of (loop_body ex_cfg ex_cv ex_idle (ex_frame False 2))) = 1 \<and>
   motion_counter (state_of (loop_body ex_cfg ex_cv ex_idle (ex_frame False 2))) = 0 \<and>
   \<not> motion_2 ex_args (ex_frame False 2) \<and>
   no_motion_counter (state_of (main_body ex_args ex_idle_2 (ex_frame False 2))) = 1 \<and>
   motion_counter (state_of (main_body ex_args ex_idle_2 (ex_frame False 2))) = 0"
  using counters_after_a_frame
      [of "ex_frame True 1" ex_idle "ex_frame True 1" ex_cfg ex_cv ex_args ex_idle_2]
    counters_after_a_frame
      [of "ex_frame False 2" ex_idle "ex_frame False 2" ex_cfg ex_cv ex_args ex_idle_2]
  by (simp add: ex_defs named_def motion_py_def motion_2_def stop_test_def)

text \<open>
  C2 as stated fails: one frame with motion and then one without leave both counters at 1
  in both scripts, so the frame without motion did not reset \<^verbatim>\<open>motion_counter\<close>.
\<close>

theorem counters_both_nonzero:
  "startup ex_cv ex_boot = Inr ex_idle \<and> main_startup ex_args ex_boot = Inr ex_idle_2 \<and>
   \<not> motion_py (ex_frame False 2) \<and> \<not> motion_2 ex_args (ex_frame False 2) \<and>
   motion_counter (final (loop_body main_py_cfg ex_cv) ex_idle
     [ex_frame True 1, ex_frame False 2]) = 1 \<and>
   no_motion_counter (final (loop_body main_py_cfg ex_cv) ex_idle
     [ex_frame True 1, ex_frame False 2]) = 1 \<and>
   motion_counter (final (main_body ex_args) ex_idle_2
     [ex_frame True 1, ex_frame False 2]) = 1 \<and>
   no_motion_counter (final (main_body ex_args) ex_idle_2
     [ex_frame True 1, ex_frame False 2]) = 1"
  using startup_ex main_startup_ex
  by (simp add: final_Cons main_py_cfg_def ex_defs step_defs motion_py_def motion_2_def)

text \<open>
  C3. With both thresholds at 2, a run of main.py from its initial state over eight frames
  that are read, do not end the loop and whose motion tests are F F T T T F F F takes the
  decisions none, none, none, none, start, none, none, stop: the second frame with motion
  (a count of 2, equal to the threshold) does not start a clip and the third does, and the
  second frame without motion does not stop it and the third does.
\<close>

theorem example_run_thresholds_2:
  assumes "startup cv b = Inr s0"
    and "MOTION_THRESHOLD c = 2" and "NO_MOTION_THRESHOLD c = 2" and "refresh_interval c \<noteq> 0"
    and "list_all steady is"
    and "map motion_py is = [False, False, True, True, True, False, False, False]"
  shows "decisions (loop_body c cv) s0 is =
     [NoChange, NoChange, NoChange, NoChange, Start, NoChange, NoChange, Stop]"
proof -
  from startup_view [OF assms(1)] have v: "view s0 = (False, 0, 0)" and n: "named s0"
    by simp_all
  show ?thesis
    unfolding loop_body_debounce [OF n assms(5) assms(4)] v assms(2,3,6) by simp
qed

theorem example_run_thresholds_2_witness:
  "startup ex_cv ex_boot = Inr ex_idle \<and>
   MOTION_THRESHOLD ex_cfg = 2 \<and> NO_MOTION_THRESHOLD ex_cfg = 2 \<and> refresh_interval ex_cfg \<noteq> 0 \<and>
   list_all steady [ex_frame False 1, ex_frame False 2, ex_frame True 3, ex_frame True 4,
     ex_frame True 5, ex_frame False 6, ex_frame False 7, ex_frame False 8] \<and>
   map motion_py [ex_frame False 1, ex_frame False 2, ex_frame True 3, ex_frame True 4,
     ex_frame True 5, ex_frame False 6, ex_frame False 7, ex_frame False 8] =
     [False, False, True, True, True, False, False, False] \<and>
   decisions (loop_body ex_cfg ex_cv) ex_idle
     [ex_frame False 1, ex_frame False 2, ex_frame True 3, ex_frame True 4,
      ex_frame True 5, ex_frame False 6, ex_frame False 7, ex_frame False 8] =
     [NoChange, NoChange, NoChange, NoChange, Start, NoChange, NoChange, Stop]"
proof -
  have h1: "startup ex_cv ex_boot = Inr ex_idle" by (rule startup_ex)
  have h2: "MOTION_THRESHOLD ex_cfg = 2" "NO_MOTION_THRESHOLD ex_cfg = 2"
    "refresh_interval ex_cfg \<noteq> 0" by (simp_all add: ex_cfg_def)
  have h3: "list_all steady [ex_frame False 1, ex_frame False 2, ex_frame True 3,
     ex_frame True 4, ex_frame True 5, ex_frame False 6, ex_frame False 7, ex_frame False 8]"
    by (simp add: steady_def ex_frame_def)
  have h4: "map motion_py [ex_frame False 1, ex_frame False 2, ex_frame True 3,
     ex_frame True 4, ex_frame True 5, ex_frame False 6, ex_frame False 7, ex_frame False 8] =
     [False, False, True, True, True, False, False, False]"
    by (simp add: motion_py_def ex_frame_def)
  show ?thesis
    using example_run_thresholds_2 [OF h1 h2 h3 h4] h1 h2 h3 h4 by simp
qed

text \<open>
  C1, as amended. In a run of either script from its initial state over steady frames, the
  next steady frame takes the start branch if and only if the script is idle, the frame
  shows motion, and the frames with motion since the last stop (since the beginning when
  there was none), this frame included, number more than the motion threshold; frames
  without motion in between are not counted and do not restart the count. In particular
  an idle script starts on a frame with motion that ends an unbroken run of more than
  threshold frames with motion.
\<close>

theorem start_iff_motion_frames_since_stop:
  assumes "startup cv b = Inr s0" and "refresh_interval c \<noteq> 0"
    and "list_all steady is" and "steady i"
    and "main_startup a b' = Inr t0" and "list_all steady js" and "steady j"
  shows "(decision_of (loop_body c cv (final (loop_body c cv) s0 is) i) = Start \<longleftrightarrow>
            \<not> motion_detected (final (loop_body c cv) s0 is) \<and> motion_py i \<and>
            MOTION_THRESHOLD c <
              int (length (filter motion_py
                (since_stop (decisions (loop_body c cv) s0 is) is))) + 1) \<and>
         (\<not> motion_detected (final (loop_body c cv) s0 is) \<and> motion_py i \<and>
          nat (MOTION_THRESHOLD c) \<le> length is \<and>
          list_all motion_py (drop (length is - nat (MOTION_THRESHOLD c)) is) \<longrightarrow>
            decision_of (loop_body c cv (final (loop_body c cv) s0 is) i) = Start) \<and>
         (decision_of (main_body a (final (main_body a) t0 js) j) = Start \<longleftrightarrow>
            \<not> motion_detected (final (main_body a) t0 js) \<and> motion_2 a j \<and>
            motion_threshold a <
              int (length (filter (motion_2 a)
                (since_stop (decisions (main_body a) t0 js) js))) + 1) \<and>
         (\<not> motion_detected (final (main_body a) t0 js) \<and> motion_2 a j \<and>
          nat (motion_threshold a) \<le> length js \<and>
          list_all (motion_2 a) (drop (length js - nat (motion_threshold a)) js) \<longrightarrow>
            decision_of (main_body a (final (main_body a) t0 js) j) = Start)"
proof -
  from startup_view [OF assms(1)] have n: "named s0" and z: "motion_counter s0 = 0"
    by (simp_all add: view_def)
  from main_startup_view [OF assms(5)] have z2: "motion_counter t0 = 0"
    by (simp add: view_def)
  have nf: "named (final (loop_body c cv) s0 is)"
    using loop_body_final_named [OF n assms(3,2)] .
  have d1: "decision_of (loop_body c cv (final (loop_body c cv) s0 is) i) = Start \<longleftrightarrow>
      start_test (MOTION_THRESHOLD c) (motion_py i) (final (loop_body c cv) s0 is)"
    by (simp add: loop_body_steady_decision [OF nf assms(4,2)] stop_test_def start_test_def)
  have d2: "decision_of (main_body a (final (main_body a) t0 js) j) = Start \<longleftrightarrow>
      start_test (motion_threshold a) (motion_2 a j) (final (main_body a) t0 js)"
    by (simp add: main_body_steady_decision [OF assms(7)] stop_test_def start_test_def)
  have c1: "motion_counter (final (loop_body c cv) s0 is) =
     int (length (filter motion_py (since_stop (decisions (loop_body c cv) s0 is) is)))"
    using loop_body_count_since_stop [OF n z assms(3,2)] .
  have c2: "motion_counter (final (main_body a) t0 js) =
     int (length (filter (motion_2 a) (since_stop (decisions (main_body a) t0 js) js)))"
    using main_body_count_since_stop [OF z2 assms(6)] .
  have r1: "int (length (takeWhile motion_py (rev is))) \<le>
      motion_counter (final (loop_body c cv) s0 is)"
    using loop_body_trailing_run [OF n _ assms(3,2)] z by simp
  have r2: "int (length (takeWhile (motion_2 a) (rev js))) \<le>
      motion_counter (final (main_body a) t0 js)"
    using main_body_trailing_run [OF _ assms(6)] z2 by simp
  have A: "decision_of (loop_body c cv (final (loop_body c cv) s0 is) i) = Start \<longleftrightarrow>
            \<not> motion_detected (final (loop_body c cv) s0 is) \<and> motion_py i \<and>
            MOTION_THRESHOLD c <
              int (length (filter motion_py
                (since_stop (decisions (loop_body c cv) s0 is) is))) + 1"
    unfolding d1 start_test_def c1 by auto
  have C: "decision_of (main_body a (final (main_body a) t0 js) j) = Start \<longleftrightarrow>
            \<not> motion_detected (final (main_body a) t0 js) \<and> motion_2 a j \<and>
            motion_threshold a <
              int (length (filter (motion_2 a)
                (since_stop (decisions (main_body a) t0 js) js))) + 1"
    unfolding d2 start_test_def c2 by auto
  have B: "decision_of (loop_body c cv (final (loop_body c cv) s0 is) i) = Start"
    if h: "\<not> motion_detected (final (loop_body c cv) s0 is)" "motion_py i"
      "nat (MOTION_THRESHOLD c) \<le> length is"
      "list_all motion_py (drop (length is - nat (MOTION_THRESHOLD c)) is)"
  proof -
    from trailing_run_length [OF h(3,4)] r1
    have "MOTION_THRESHOLD c \<le> motion_counter (final (loop_body c cv) s0 is)" by linarith
    then show ?thesis unfolding d1 start_test_def using h(1,2) by simp
  qed
  have D: "decision_of (main_body a (final (main_body a) t0 js) j) = Start"
    if h: "\<not> motion_detected (final (main_body a) t0 js)" "motion_2 a j"
      "nat (motion_threshold a) \<le> length js"
      "list_all (motion_2 a) (drop (length js - nat (motion_threshold a)) js)"
  proof -
    from trailing_run_length [OF h(3,4)] r2
    have "motion_threshold a \<le> motion_counter (final (main_body a) t0 js)" by linarith
    then show ?thesis unfolding d2 start_test_def using h(1,2) by simp
  qed
  from A B C D show ?thesis by blast
qed


theorem start_iff_motion_frames_since_stop_witness:
  "startup ex_cv ex_boot = Inr ex_idle \<and> refresh_interval ex_cfg \<noteq> 0 \<and>
   main_startup ex_args ex_boot = Inr ex_idle_2 \<and>
   list_all steady [ex_frame True 1, ex_frame True 2, ex_frame False 3] \<and>
   steady (ex_frame True 4) \<and>
   decision_of (loop_body ex_cfg ex_cv (final (loop_body ex_cfg ex_cv) ex_idle
     [ex_frame True 1, ex_frame True 2, ex_frame False 3]) (ex_frame True 4)) = Start \<and>
   \<not> motion_detected (final (loop_body ex_cfg ex_cv) ex_idle
     [ex_frame True 1, ex_frame True 2, ex_frame False 3]) \<and>
   motion_py (ex_frame True 4) \<and>
   MOTION_THRESHOLD ex_cfg < int (length (filter motion_py
     (since_stop (decisions (loop_body ex_cfg ex_cv) ex_idle
        [ex_frame True 1, ex_frame True 2, ex_frame False 3])
        [ex_frame True 1, ex_frame True 2, ex_frame False 3]))) + 1 \<and>
   decision_of (main_body ex_args (final (main_body ex_args) ex_idle_2
     [ex_frame True 1, ex_frame True 2, ex_frame False 3]) (ex_frame True 4)) = Start \<and>
   \<not> motion_detected (final (main_body ex_args) ex_idle_2
     [ex_frame True 1, ex_frame True 2, ex_frame False 3]) \<and>
   motion_2 ex_args (ex_frame True 4) \<and>
   motion_threshold ex_args < int (length (filter (motion_2 ex_args)
     (since_stop (decisions (main_body ex_args) ex_idle_2
        [ex_frame True 1, ex_frame True 2, ex_frame False 3])
        [ex_frame True 1, ex_frame True 2, ex_frame False 3]))) + 1 \<and>
   list_all steady [ex_frame True 1, ex_frame True 2] \<and> steady (ex_frame True 3) \<and>
   \<not> motion_detected (final (loop_body ex_cfg ex_cv) ex_idle
     [ex_frame True 1, ex_frame True 2]) \<and>
   nat (MOTION_THRESHOLD ex_cfg) \<le> length [ex_frame True 1, ex_frame True 2] \<and>
   list_all motion_py (drop (length [ex_frame True 1, ex_frame True 2] -
     nat (MOTION_THRESHOLD ex_cfg)) [ex_frame True 1, ex_frame True 2]) \<and>
   decision_of (loop_body ex_cfg ex_cv (final (loop_body ex_cfg ex_cv) ex_idle
     [ex_frame True 1, ex_frame True 2]) (ex_frame True 3)) = Start \<and>
   \<not> motion_detected (final (main_body ex_args) ex_idle_2
     [ex_frame True 1, ex_frame True 2]) \<and>
   nat (motion_threshold ex_args) \<le> length [ex_frame True 1, ex_frame True 2] \<and>
   list_all (motion_2 ex_args) (drop (length [ex_frame True 1, ex_frame True 2] -
     nat (motion_threshold ex_args)) [ex_frame True 1, ex_frame True 2]) \<and>
   decision_of (main_body ex_args (final (main_body ex_args) ex_idle_2
     [ex_frame True 1, ex_frame True 2]) (ex_frame True 3)) = Start"
proof -
  have h1: "startup ex_cv ex_boot = Inr ex_idle" by (rule startup_ex)
  have h2: "refresh_interval ex_cfg \<noteq> 0" by (simp add: ex_cfg_def)
  have h3: "list_all steady [ex_frame True 1, ex_frame True 2, ex_frame False 3]"
    "list_all steady [ex_frame True 1, ex_frame True 2]"
    "steady (ex_frame True 4)" "steady (ex_frame True 3)"
    by (simp_all add: steady_def ex_frame_def)
  have h4: "main_startup ex_args ex_boot = Inr ex_idle_2" by (rule main_startup_ex)
  show ?thesis
    using start_iff_motion_frames_since_stop [OF h1 h2 h3(1) h3(3) h4 h3(1) h3(3)]
      start_iff_motion_frames_since_stop [OF h1 h2 h3(2) h3(4) h4 h3(2) h3(4)]
      h1 h2 h3 h4
    by (simp add: final_Cons decisions_def since_stop_def ex_defs step_defs
        motion_py_def motion_2_def)
qed

text \<open>
  C1 as stated fails: with the motion threshold at 2, the frames motion, motion, no motion,
  motion make both scripts start on the fourth frame, although the frame before it showed
  no motion.
\<close>

theorem start_after_interrupted_motion:
  "startup ex_cv ex_boot = Inr ex_idle \<and> main_startup ex_args ex_boot = Inr ex_idle_2 \<and>
   MOTION_THRESHOLD ex_cfg = 2 \<and> motion_threshold ex_args = 2 \<and>
   map motion_py [ex_frame True 1, ex_frame True 2, ex_frame False 3, ex_frame True 4] =
     [True, True, False, True] \<and>
   map (motion_2 ex_args) [ex_frame True 1, ex_frame True 2, ex_frame False 3, ex_frame True 4] =
     [True, True, False, True] \<and>
   decisions (loop_body ex_cfg ex_cv) ex_idle
     [ex_frame True 1, ex_frame True 2, ex_frame False 3, ex_frame True 4] =
     [NoChange, NoChange, NoChange, Start] \<and>
   decisions (main_body ex_args) ex_idle_2
     [ex_frame True 1, ex_frame True 2, ex_frame False 3, ex_frame True 4] =
     [NoChange, NoChange, NoChange, Start]"
  using startup_ex main_startup_ex
  by (simp add: decisions_def ex_defs step_defs motion_py_def motion_2_def)




text \<open>
  C5, as amended. In a run of either script from its initial state, the frames handed to
  the full-session writer are, once each and in the order they were read, the frames that
  the iterations of the loop read, whatever the motion test and the recording state; only
  the frame of an iteration that an exception left before line 111 (179 in main_2.py) is
  missing, and such an iteration is the last one. The frame that main.py reads before the
  loop is not among them.
\<close>

theorem continuous_sink_gets_loop_frames:
  assumes "startup cv b = Inr s0" and "refresh_interval c \<noteq> 0"
    and "main_startup a b' = Inr t0"
  shows "written (big_clip_out (final (loop_body c cv) s0 is)) =
           map frame (filter ret
             (take (length (filter (\<lambda>r. \<not> is_Raise r) (trace (loop_body c cv) s0 is))) is)) \<and>
         written (big_clip_out (final (main_body a) t0 js)) =
           map frame (filter ret
             (take (length (filter (\<lambda>r. \<not> is_Raise r) (trace (main_body a) t0 js))) js))"
proof -
  have "written (big_clip_out (final (loop_body c cv) s0 is)) =
      written (big_clip_out s0) @ map frame (filter ret
        (take (length (filter (\<lambda>r. \<not> is_Raise r) (trace (loop_body c cv) s0 is))) is))"
    by (rule written_generic [where big = "\<lambda>s. written (big_clip_out s)"])
       (simp_all add: loop_body_big [OF assms(2)])
  moreover have "written (big_clip_out (final (main_body a) t0 js)) =
      written (big_clip_out t0) @ map frame (filter ret
        (take (length (filter (\<lambda>r. \<not> is_Raise r) (trace (main_body a) t0 js))) js))"
    by (rule written_generic [where big = "\<lambda>s. written (big_clip_out s)"])
       (simp_all add: main_body_big)
  ultimately show ?thesis
    using startup_big [OF assms(1)] main_startup_big [OF assms(3)] by simp
qed

theorem continuous_sink_gets_loop_frames_witness:
  "startup ex_cv ex_boot = Inr ex_idle \<and> refresh_interval ex_cfg \<noteq> 0 \<and>
   main_startup ex_args ex_boot = Inr ex_idle_2 \<and>
   written (big_clip_out (final (loop_body ex_cfg ex_cv) ex_idle
     [ex_frame False 1, ex_frame True 2, ex_frame True 3, ex_frame True 4])) = [1, 2, 3, 4] \<and>
   written (big_clip_out (final (main_body ex_args) ex_idle_2
     [ex_frame False 1, ex_frame True 2, ex_frame True 3, ex_frame True 4])) = [1, 2, 3, 4]"
proof -
  have h2: "refresh_interval ex_cfg \<noteq> 0" by (simp add: ex_cfg_def)
  show ?thesis
    using continuous_sink_gets_loop_frames [OF startup_ex h2 main_startup_ex,
        of "[ex_frame False 1, ex_frame True 2, ex_frame True 3, ex_frame True 4]"
           "[ex_frame False 1, ex_frame True 2, ex_frame True 3, ex_frame True 4]"]
      startup_ex h2 main_startup_ex
    by (simp add: ex_defs step_defs)
qed

text \<open>
  C5 as stated fails in main.py: the camera delivers the frames 0, 1 and 2, all read
  successfully, and the full-session writer holds 1 and 2 only; frame 0 was used for the
  background at line 27 and written nowhere.
\<close>

theorem seed_frame_not_in_continuous_sink:
  "startup ex_cv ex_boot = Inr ex_idle \<and> first_ret ex_boot \<and> first_frame ex_boot = 0 \<and>
   ret (ex_frame False 1) \<and> frame (ex_frame False 1) = 1 \<and>
   ret (ex_frame False 2) \<and> frame (ex_frame False 2) = 2 \<and>
   written (big_clip_out (final (loop_body main_py_cfg ex_cv) ex_idle
     [ex_frame False 1, ex_frame False 2])) = [1, 2]"
  using startup_ex
  by (simp add: final_Cons main_py_cfg_def ex_defs ex_boot_def step_defs write_frame_def
      VideoWriter_def)



text \<open>
  C10. Both scripts enter the loop with \<^verbatim>\<open>clip_number = 1\<close> and add one to it before they
  build the name of a clip, so the clips of a run, in the order they were started, carry
  the numbers 2, 3, 4 and so on: the paths of the clip writers are the names built from
  these numbers and the clock of the iteration that started each clip. As long as no
  exception leaves the loop, \<^verbatim>\<open>clip_number\<close> is one more than the number of starts. The
  numbers 2, 3 and 4 are printed as 002, 003 and 004, and no number from 2 on is printed
  as 001.
\<close>

theorem clip_numbers_start_at_two:
  assumes "startup cv b = Inr s0" and "refresh_interval c \<noteq> 0"
    and "main_startup a b' = Inr t0"
  shows "clip_number s0 = 1 \<and> clip_number t0 = 1 \<and>
         map path (writers (final (loop_body c cv) s0 is)) =
           numbered clip_name_py 2 (start_inputs (trace (loop_body c cv) s0 is) is) \<and>
         (list_all (\<lambda>r. \<not> is_Raise r) (trace (loop_body c cv) s0 is) \<longrightarrow>
            clip_number (final (loop_body c cv) s0 is) =
              1 + int (length (start_inputs (trace (loop_body c cv) s0 is) is))) \<and>
         map path (writers (final (main_body a) t0 js)) =
           numbered clip_path_2 2 (start_inputs (trace (main_body a) t0 js) js) \<and>
         (list_all (\<lambda>r. \<not> is_Raise r) (trace (main_body a) t0 js) \<longrightarrow>
            clip_number (final (main_body a) t0 js) =
              1 + int (length (start_inputs (trace (main_body a) t0 js) js))) \<and>
         fmt_03d 2 = ''002'' \<and> fmt_03d 3 = ''003'' \<and> fmt_03d 4 = ''004'' \<and>
         (2 \<le> n \<longrightarrow> fmt_03d n \<noteq> ''001'')"
proof -
  have A: "map path (writers (final (loop_body c cv) s0 is)) =
           map path (writers s0) @
             numbered clip_name_py (clip_number s0 + 1)
               (start_inputs (trace (loop_body c cv) s0 is) is) \<and>
         (list_all (\<lambda>r. \<not> is_Raise r) (trace (loop_body c cv) s0 is) \<longrightarrow>
            clip_number (final (loop_body c cv) s0 is) =
              clip_number s0 + int (length (start_inputs (trace (loop_body c cv) s0 is) is)))"
    by (rule names_generic [where paths = "\<lambda>s. map path (writers s)"])
       (simp_all add: loop_body_paths loop_body_Start_iff [OF assms(2)]
          loop_body_clip_number [OF assms(2)])
  have B: "map path (writers (final (main_body a) t0 js)) =
           map path (writers t0) @
             numbered clip_path_2 (clip_number t0 + 1)
               (start_inputs (trace (main_body a) t0 js) js) \<and>
         (list_all (\<lambda>r. \<not> is_Raise r) (trace (main_body a) t0 js) \<longrightarrow>
            clip_number (final (main_body a) t0 js) =
              clip_number t0 + int (length (start_inputs (trace (main_body a) t0 js) js)))"
    by (rule names_generic [where paths = "\<lambda>s. map path (writers s)"])
       (simp_all add: main_body_paths main_body_Start_iff main_body_clip_number)
  from A B startup_clips [OF assms(1)] main_startup_clips [OF assms(3)] fmt_03d_examples
    fmt_03d_not_001 [of n]
  show ?thesis by simp
qed

theorem clip_numbers_start_at_two_witness:
  "startup ex_cv ex_boot = Inr ex_idle \<and> refresh_interval ex_cfg \<noteq> 0 \<and>
   main_startup ex_args ex_boot = Inr ex_idle_2 \<and>
   list_all (\<lambda>r. \<not> is_Raise r) (trace (loop_body ex_cfg ex_cv) ex_idle
     [ex_frame True 1, ex_frame True 2, ex_frame True 3, ex_frame False 4, ex_frame False 5,
      ex_frame False 6, ex_frame True 7, ex_frame True 8, ex_frame True 9]) \<and>
   map path (writers (final (loop_body ex_cfg ex_cv) ex_idle
     [ex_frame True 1, ex_frame True 2, ex_frame True 3, ex_frame False 4, ex_frame False 5,
      ex_frame False 6, ex_frame True 7, ex_frame True 8, ex_frame True 9])) =
     [''clip_002_20240101_120000.mp4'', ''clip_003_20240101_120000.mp4''] \<and>
   clip_number (final (loop_body ex_cfg ex_cv) ex_idle
     [ex_frame True 1, ex_frame True 2, ex_frame True 3, ex_frame False 4, ex_frame False 5,
      ex_frame False 6, ex_frame True 7, ex_frame True 8, ex_frame True 9]) = 3 \<and>
   list_all (\<lambda>r. \<not> is_Raise r) (trace (main_body ex_args) ex_idle_2
     [ex_frame True 1, ex_frame True 2, ex_frame True 3, ex_frame False 4, ex_frame False 5,
      ex_frame False 6, ex_frame True 7, ex_frame True 8, ex_frame True 9]) \<and>
   map path (writers (final (main_body ex_args) ex_idle_2
     [ex_frame True 1, ex_frame True 2, ex_frame True 3, ex_frame False 4, ex_frame False 5,
      ex_frame False 6, ex_frame True 7, ex_frame True 8, ex_frame True 9])) =
     [''20240101/clip_002_120000.mp4'', ''20240101/clip_003_120000.mp4''] \<and>
   clip_number (final (main_body ex_args) ex_idle_2
     [ex_frame True 1, ex_frame True 2, ex_frame True 3, ex_frame False 4, ex_frame False 5,
      ex_frame False 6, ex_frame True 7, ex_frame True 8, ex_frame True 9]) = 3 \<and>
   (2::int) \<le> 2 \<and> fmt_03d 2 \<noteq> ''001''"
proof -
  have h2: "refresh_interval ex_cfg \<noteq> 0" by (simp add: ex_cfg_def)
  show ?thesis
    using clip_numbers_start_at_two [OF startup_ex h2 main_startup_ex,
        of "[ex_frame True 1, ex_frame True 2, ex_frame True 3, ex_frame False 4,
             ex_frame False 5, ex_frame False 6, ex_frame True 7, ex_frame True 8,
             ex_frame True 9]"
           "[ex_frame True 1, ex_frame True 2, ex_frame True 3, ex_frame False 4,
             ex_frame False 5, ex_frame False 6, ex_frame True 7, ex_frame True 8,
             ex_frame True 9]" 2]
      startup_ex h2 main_startup_ex
    by (simp add: final_Cons ex_defs step_defs VideoWriter_def path_join_def fmt_03d_examples
        write_frame_def release_def)
qed

text \<open>
  C8, as amended. main_2.py rejects no configuration: whatever integers the command line
  gave for the region of interest and the thresholds, the session starts as soon as the
  camera opens and creating the full-session writer raises nothing. The region of interest
  is passed through \<^verbatim>\<open>validate_roi\<close>, which moves and shrinks it into the 640 by 480 frame
  and leaves a region that already lies within the frame as it is; the thresholds are used
  as they were given, so that with a motion threshold below 1 the first frame with motion
  starts a clip.
\<close>

theorem configuration_is_never_rejected:
  assumes "camera_opened b" and "big_open b \<noteq> OpenRaises" and "steady j"
  shows "\<not> isl (main_startup a b) \<and>
         roi_coords (projr (main_startup a b)) = validate_roi (roi a) width height \<and>
         roi_invariant_spec (roi_coords (projr (main_startup a b))) width height \<and>
         (roi_invariant_spec (roi a) width height \<longrightarrow> roi_coords (projr (main_startup a b)) = roi a) \<and>
         decision_of (main_body a (projr (main_startup a b)) j) =
           (if motion_2 a j \<and> motion_threshold a < 1 then Start else NoChange)"
proof -
  have s: "main_startup a b = Inr (projr (main_startup a b))"
    using assms(1,2) main_startup_cases [of a b] by simp
  then have 1: "\<not> isl (main_startup a b)" by (metis sum.disc(2))
  have 2: "roi_coords (projr (main_startup a b)) = validate_roi (roi a) width height"
    using main_startup_started(1) [OF assms(1,2)] .
  have 3: "roi_invariant_spec (validate_roi (roi a) width height) width height"
    by (rule validate_roi_invariant_spec) (simp_all add: width_def height_def)
  have v: "view (projr (main_startup a b)) = (False, 0, 0)"
    using main_startup_started(2) [OF assms(1,2)] .
  have 5: "decision_of (main_body a (projr (main_startup a b)) j) =
           (if motion_2 a j \<and> motion_threshold a < 1 then Start else NoChange)"
    using v by (auto simp add: main_body_steady_decision [OF assms(3)] start_test_def
        stop_test_def view_def)
  from 1 2 3 5 validate_roi_keeps [of "roi a" width height] show ?thesis by simp
qed

theorem configuration_is_never_rejected_witness:
  "camera_opened ex_boot \<and> big_open ex_boot \<noteq> OpenRaises \<and> steady (ex_frame True 1) \<and>
   \<not> isl (main_startup (ex_args\<lparr>roi := (700, 500, 200, 200), motion_threshold := - 5\<rparr>) ex_boot) \<and>
   roi_coords (projr (main_startup
     (ex_args\<lparr>roi := (700, 500, 200, 200), motion_threshold := - 5\<rparr>) ex_boot)) =
     (639, 479, 1, 1) \<and>
   roi_invariant_spec (639, 479, 1, 1) width height \<and>
   roi_invariant_spec (roi ex_args) width height \<and>
   roi_coords (projr (main_startup ex_args ex_boot)) = roi ex_args \<and>
   decision_of (main_body (ex_args\<lparr>roi := (700, 500, 200, 200), motion_threshold := - 5\<rparr>)
     (projr (main_startup (ex_args\<lparr>roi := (700, 500, 200, 200), motion_threshold := - 5\<rparr>)
        ex_boot)) (ex_frame True 1)) = Start"
proof -
  have h: "camera_opened ex_boot" "big_open ex_boot \<noteq> OpenRaises" "steady (ex_frame True 1)"
    by (simp_all add: ex_boot_def steady_def ex_frame_def)
  have e: "validate_roi (700, 500, 200, 200) width height = (639, 479, 1, 1)"
    "roi_invariant_spec (250, 150, 200, 200) width height"
    by (simp_all add: validate_roi_def width_def height_def roi_invariant_spec_def)
  have r: "roi (ex_args\<lparr>roi := (700, 500, 200, 200), motion_threshold := - 5\<rparr>) =
      (700, 500, 200, 200)" "roi ex_args = (250, 150, 200, 200)"
    by (simp_all add: ex_args_def)
  have m: "motion_2 (ex_args\<lparr>roi := (700, 500, 200, 200), motion_threshold := - 5\<rparr>)
      (ex_frame True 1)"
    "motion_threshold (ex_args\<lparr>roi := (700, 500, 200, 200), motion_threshold := - 5\<rparr>) < 1"
    by (simp_all add: motion_2_def ex_args_def ex_frame_def)
  have i: "roi_invariant_spec (639, 479, 1, 1) width height"
    by (simp add: width_def height_def roi_invariant_spec_def)
  note A = configuration_is_never_rejected [OF h,
        of "ex_args\<lparr>roi := (700, 500, 200, 200), motion_threshold := - 5\<rparr>"]
  note B = configuration_is_never_rejected [OF h, of ex_args]
  from A have A1: "\<not> isl (main_startup
      (ex_args\<lparr>roi := (700, 500, 200, 200), motion_threshold := - 5\<rparr>) ex_boot)"
    and A2: "roi_coords (projr (main_startup
      (ex_args\<lparr>roi := (700, 500, 200, 200), motion_threshold := - 5\<rparr>) ex_boot)) =
      (639, 479, 1, 1)"
    and A3: "decision_of (main_body
      (ex_args\<lparr>roi := (700, 500, 200, 200), motion_threshold := - 5\<rparr>)
      (projr (main_startup (ex_args\<lparr>roi := (700, 500, 200, 200), motion_threshold := - 5\<rparr>)
        ex_boot)) (ex_frame True 1)) = Start"
    unfolding r e(1) using m by simp_all
  from B e(2) have B1: "roi_coords (projr (main_startup ex_args ex_boot)) = roi ex_args"
    unfolding r by blast
  from h A1 A2 A3 B1 i e(2) show ?thesis unfolding r by simp
qed

text \<open>
  C8 as stated fails: a region of interest far outside the 640 by 480 frame and a negative
  threshold are accepted, the session starts with the region moved to the corner of the
  frame, and the full-session writer is opened.
\<close>

theorem out_of_frame_roi_is_accepted:
  "\<not> roi_invariant_spec (700, 500, 200, 200) width height \<and>
   main (ex_args\<lparr>roi := (700, 500, 200, 200), motion_threshold := - 5\<rparr>) ex_boot [] =
     Running (ex_idle_2\<lparr>roi_coords := (639, 479, 1, 1)\<rparr>) \<and>
   is_opened (big_clip_out (ex_idle_2\<lparr>roi_coords := (639, 479, 1, 1)\<rparr>))"
  by (simp add: main_def main_startup_def ex_args_def ex_boot_def ex_idle_2_def validate_roi_def
      width_def height_def create_video_writer_def path_join_def roi_invariant_spec_def VideoWriter_def)

text \<open>
  C7, as amended. Take an iteration of either script that read a frame and in which the
  start test holds. When the writer of the new clip is created without being opened, the
  iteration takes the start branch and raises nothing: the script is recording afterwards,
  with the unopened writer behind \<^verbatim>\<open>out\<close>, and the clip number has gone up by one. While
  the script is recording no iteration takes the start branch or changes the clip number,
  so the failed clip is not tried again. When creating the writer raises, the exception
  leaves the loop and the run ends there, with the clip number gone up by one and the
  script not recording.
\<close>

theorem failed_clip_open_is_not_reverted:
  assumes "ret i" and "start_test (MOTION_THRESHOLD c) (motion_py i) s"
    and "refresh_interval c \<noteq> 0"
    and "ret j" and "start_test (motion_threshold a) (motion_2 a j) t"
  shows "(sink_open i = NotOpened \<longrightarrow>
       decision_of (loop_body c cv s i) = Start \<and> \<not> is_Raise (loop_body c cv s i) \<and>
       motion_detected (state_of (loop_body c cv s i)) \<and>
       clip_number (state_of (loop_body c cv s i)) = clip_number s + 1 \<and>
       out (state_of (loop_body c cv s i)) = Some (length (writers s)) \<and>
       \<not> is_opened (writers (state_of (loop_body c cv s i)) ! length (writers s))) \<and>
    (sink_open i = OpenRaises \<longrightarrow>
       is_Raise (loop_body c cv s i) \<and> \<not> motion_detected (state_of (loop_body c cv s i)) \<and>
       clip_number (state_of (loop_body c cv s i)) = clip_number s + 1 \<and>
       trace (loop_body c cv) s (i # is) = [loop_body c cv s i]) \<and>
    (motion_detected s' \<longrightarrow>
       decision_of (loop_body c cv s' i') \<noteq> Start \<and>
       clip_number (state_of (loop_body c cv s' i')) = clip_number s') \<and>
    (sink_open j = NotOpened \<longrightarrow>
       decision_of (main_body a t j) = Start \<and> \<not> is_Raise (main_body a t j) \<and>
       motion_detected (state_of (main_body a t j)) \<and>
       clip_number (state_of (main_body a t j)) = clip_number t + 1 \<and>
       out (state_of (main_body a t j)) = Some (length (writers t)) \<and>
       \<not> is_opened (writers (state_of (main_body a t j)) ! length (writers t))) \<and>
    (sink_open j = OpenRaises \<longrightarrow>
       is_Raise (main_body a t j) \<and> \<not> motion_detected (state_of (main_body a t j)) \<and>
       clip_number (state_of (main_body a t j)) = clip_number t + 1 \<and>
       trace (main_body a) t (j # js) = [main_body a t j]) \<and>
    (motion_detected t' \<longrightarrow>
       decision_of (main_body a t' j') \<noteq> Start \<and>
       clip_number (state_of (main_body a t' j')) = clip_number t')"
proof -
  note A = loop_body_failed_open [OF assms(1,2,3)]
  note B = main_body_failed_open [OF assms(4,5)]
  from A(1) [of cv] A(2) [of cv "is"] B(1) B(2) [of js]
    loop_body_while_recording [of s' c cv i'] main_body_while_recording [of t' a j']
  show ?thesis by blast
qed

theorem failed_clip_open_is_not_reverted_witness:
  "ret ((ex_frame True 1)\<lparr>sink_open := NotOpened\<rparr>) \<and>
   start_test (MOTION_THRESHOLD (ex_cfg\<lparr>MOTION_THRESHOLD := 0\<rparr>))
     (motion_py ((ex_frame True 1)\<lparr>sink_open := NotOpened\<rparr>)) ex_idle \<and>
   refresh_interval (ex_cfg\<lparr>MOTION_THRESHOLD := 0\<rparr>) \<noteq> 0 \<and>
   start_test (motion_threshold (ex_args\<lparr>motion_threshold := 0\<rparr>))
     (motion_2 (ex_args\<lparr>motion_threshold := 0\<rparr>) ((ex_frame True 1)\<lparr>sink_open := NotOpened\<rparr>))
     ex_idle_2 \<and>
   sink_open ((ex_frame True 1)\<lparr>sink_open := NotOpened\<rparr>) = NotOpened \<and>
   motion_detected (state_of (loop_body (ex_cfg\<lparr>MOTION_THRESHOLD := 0\<rparr>) ex_cv ex_idle
     ((ex_frame True 1)\<lparr>sink_open := NotOpened\<rparr>))) \<and>
   clip_number (state_of (loop_body (ex_cfg\<lparr>MOTION_THRESHOLD := 0\<rparr>) ex_cv ex_idle
     ((ex_frame True 1)\<lparr>sink_open := NotOpened\<rparr>))) = 2 \<and>
   motion_detected (state_of (main_body (ex_args\<lparr>motion_threshold := 0\<rparr>) ex_idle_2
     ((ex_frame True 1)\<lparr>sink_open := NotOpened\<rparr>))) \<and>
   clip_number (state_of (main_body (ex_args\<lparr>motion_threshold := 0\<rparr>) ex_idle_2
     ((ex_frame True 1)\<lparr>sink_open := NotOpened\<rparr>))) = 2 \<and>
   sink_open ((ex_frame True 1)\<lparr>sink_open := OpenRaises\<rparr>) = OpenRaises \<and>
   is_Raise (loop_body (ex_cfg\<lparr>MOTION_THRESHOLD := 0\<rparr>) ex_cv ex_idle
     ((ex_frame True 1)\<lparr>sink_open := OpenRaises\<rparr>)) \<and>
   is_Raise (main_body (ex_args\<lparr>motion_threshold := 0\<rparr>) ex_idle_2
     ((ex_frame True 1)\<lparr>sink_open := OpenRaises\<rparr>)) \<and>
   motion_detected (ex_idle\<lparr>motion_detected := True\<rparr>) \<and>
   clip_number (state_of (loop_body (ex_cfg\<lparr>MOTION_THRESHOLD := 0\<rparr>) ex_cv
     (ex_idle\<lparr>motion_detected := True\<rparr>) (ex_frame True 2))) = 1 \<and>
   motion_detected (ex_idle_2\<lparr>motion_detected := True\<rparr>) \<and>
   clip_number (state_of (main_body (ex_args\<lparr>motion_threshold := 0\<rparr>)
     (ex_idle_2\<lparr>motion_detected := True\<rparr>) (ex_frame True 2))) = 1"
proof -
  have h: "ret ((ex_frame True 1)\<lparr>sink_open := NotOpened\<rparr>)"
    "ret ((ex_frame True 1)\<lparr>sink_open := OpenRaises\<rparr>)"
    "start_test (MOTION_THRESHOLD (ex_cfg\<lparr>MOTION_THRESHOLD := 0\<rparr>))
       (motion_py ((ex_frame True 1)\<lparr>sink_open := NotOpened\<rparr>)) ex_idle"
    "start_test (MOTION_THRESHOLD (ex_cfg\<lparr>MOTION_THRESHOLD := 0\<rparr>))
       (motion_py ((ex_frame True 1)\<lparr>sink_open := OpenRaises\<rparr>)) ex_idle"
    "refresh_interval (ex_cfg\<lparr>MOTION_THRESHOLD := 0\<rparr>) \<noteq> 0"
    "start_test (motion_threshold (ex_args\<lparr>motion_threshold := 0\<rparr>))
       (motion_2 (ex_args\<lparr>motion_threshold := 0\<rparr>)
         ((ex_frame True 1)\<lparr>sink_open := NotOpened\<rparr>)) ex_idle_2"
    "start_test (motion_threshold (ex_args\<lparr>motion_threshold := 0\<rparr>))
       (motion_2 (ex_args\<lparr>motion_threshold := 0\<rparr>)
         ((ex_frame True 1)\<lparr>sink_open := OpenRaises\<rparr>)) ex_idle_2"
    by (simp_all add: ex_defs start_test_def motion_py_def motion_2_def)
  have n: "sink_open ((ex_frame True 1)\<lparr>sink_open := NotOpened\<rparr>) = NotOpened"
    "sink_open ((ex_frame True 1)\<lparr>sink_open := OpenRaises\<rparr>) = OpenRaises"
    "motion_detected (ex_idle\<lparr>motion_detected := True\<rparr>)"
    "motion_detected (ex_idle_2\<lparr>motion_detected := True\<rparr>)"
    "clip_number ex_idle = 1" "clip_number ex_idle_2 = 1"
    "clip_number (ex_idle\<lparr>motion_detected := True\<rparr>) = 1"
    "clip_number (ex_idle_2\<lparr>motion_detected := True\<rparr>) = 1"
    by (simp_all add: ex_defs)
  note A = failed_clip_open_is_not_reverted [OF h(1) h(3) h(5) h(1) h(6),
      of ex_cv "[]" "ex_idle\<lparr>motion_detected := True\<rparr>" "ex_frame True 2" "[]"
         "ex_idle_2\<lparr>motion_detected := True\<rparr>" "ex_frame True 2"]
  note B = failed_clip_open_is_not_reverted [OF h(2) h(4) h(5) h(2) h(7),
      of ex_cv "[]" "ex_idle\<lparr>motion_detected := True\<rparr>" "ex_frame True 2" "[]"
         "ex_idle_2\<lparr>motion_detected := True\<rparr>" "ex_frame True 2"]
  from A B h n show ?thesis by simp
qed

text \<open>
  C7 as stated fails: when the writer of a new clip is created but cannot open its file,
  both scripts take the start branch and leave the iteration with \<^verbatim>\<open>motion_detected\<close> true;
  nothing sets it back.
\<close>

theorem recording_after_failed_open:
  "sink_open ((ex_frame True 1)\<lparr>sink_open := NotOpened\<rparr>) = NotOpened \<and>
   \<not> motion_detected ex_idle \<and> \<not> motion_detected ex_idle_2 \<and>
   decision_of (loop_body (ex_cfg\<lparr>MOTION_THRESHOLD := 0\<rparr>) ex_cv ex_idle
     ((ex_frame True 1)\<lparr>sink_open := NotOpened\<rparr>)) = Start \<and>
   motion_detected (state_of (loop_body (ex_cfg\<lparr>MOTION_THRESHOLD := 0\<rparr>) ex_cv ex_idle
     ((ex_frame True 1)\<lparr>sink_open := NotOpened\<rparr>))) \<and>
   decision_of (main_body (ex_args\<lparr>motion_threshold := 0\<rparr>) ex_idle_2
     ((ex_frame True 1)\<lparr>sink_open := NotOpened\<rparr>)) = Start \<and>
   motion_detected (state_of (main_body (ex_args\<lparr>motion_threshold := 0\<rparr>) ex_idle_2
     ((ex_frame True 1)\<lparr>sink_open := NotOpened\<rparr>)))"
  by (simp add: ex_defs step_defs)

end
